theory Spec2Isabelle
  imports Complex_Main
begin

section \<open>Zoidberg: field-line maps, grid file writer, visualization exporter\<close>

text \<open>
  A shallow embedding of \<^verbatim>\<open>zoidberg.py\<close>: \<^verbatim>\<open>make_maps\<close>, \<^verbatim>\<open>write_maps\<close> and
  \<^verbatim>\<open>fci_to_vtk\<close>. Python exceptions are values of type \<open>error\<close>; a function that can
  raise returns \<open>error + 'a\<close> with \<open>Inl\<close> the exception. numpy's float64 numbers are
  modelled by the reals, numpy arrays by nested lists in index order \<open>[x][y][z]\<close>.
  The collaborators that live in other modules (the field-line tracer, the progress
  bar, the legacy transform, the VTK back end) are parameters of the functions that
  call them.
\<close>

subsection \<open>Errors and sequencing\<close>

datatype error =
    ZeroDivisionError
  | IndexError
  | ValueError
  | KeyError
  | AttributeError
  | NameError
  | TypeError
  | IOError
  | Raised string  \<comment> \<open>an exception raised inside a collaborator\<close>

definition bindE :: "error + 'a \<Rightarrow> ('a \<Rightarrow> error + 'b) \<Rightarrow> error + 'b" where
  "bindE m f = (case m of Inl e \<Rightarrow> Inl e | Inr x \<Rightarrow> f x)"

text \<open>Python's \<^verbatim>\<open>a / b\<close> on two floats raises when the divisor is zero.\<close>

definition py_float_div :: "real \<Rightarrow> real \<Rightarrow> error + real" where
  "py_float_div a b = (if b = 0 then Inl ZeroDivisionError else Inr (a / b))"

text \<open>\<^verbatim>\<open>xs[i]\<close> for an index \<open>i \<ge> 0\<close>.\<close>

definition getitem :: "'a list \<Rightarrow> nat \<Rightarrow> error + 'a" where
  "getitem xs i = (if i < length xs then Inr (xs ! i) else Inl IndexError)"

text \<open>
  A \<^verbatim>\<open>for\<close> loop over a list of indices whose body may raise: the first exception
  leaves the loop.
\<close>

fun for_loop :: "nat list \<Rightarrow> (nat \<Rightarrow> 'a \<Rightarrow> error + 'a) \<Rightarrow> 'a \<Rightarrow> error + 'a" where
  "for_loop [] body st = Inr st"
| "for_loop (i # is) body st = bindE (body i st) (for_loop is body)"

subsection \<open>Arrays\<close>

type_synonym array1 = "real list"
type_synonym array2 = "real list list"
type_synonym array3 = "real list list list"

text \<open>\<^verbatim>\<open>np.zeros((n1, n2))\<close> and \<^verbatim>\<open>np.zeros((n1, n2, n3))\<close>.\<close>

definition zeros2 :: "nat \<Rightarrow> nat \<Rightarrow> array2" where
  "zeros2 n1 n2 = replicate n1 (replicate n2 0)"

definition zeros3 :: "nat \<Rightarrow> nat \<Rightarrow> nat \<Rightarrow> array3" where
  "zeros3 n1 n2 n3 = replicate n1 (replicate n2 (replicate n3 0))"

text \<open>
  \<^verbatim>\<open>np.meshgrid(xs, zs, indexing='ij')\<close>: two arrays of shape
  \<open>(len xs, len zs)\<close>, the first constant along its rows, the second repeating \<open>zs\<close>.
\<close>

definition meshgrid_ij :: "array1 \<Rightarrow> array1 \<Rightarrow> array2 \<times> array2" where
  "meshgrid_ij xs zs = (map (\<lambda>x. map (\<lambda>z. x) zs) xs, map (\<lambda>x. zs) xs)"

text \<open>\<^verbatim>\<open>a.flatten()\<close> of a two-dimensional array, in row-major order.\<close>

definition flatten :: "'a list list \<Rightarrow> 'a list" where
  "flatten a = concat a"

text \<open>
  \<^verbatim>\<open>pts.reshape((n, m, 2))\<close> of an array of \<open>(x, z)\<close> pairs: numpy raises
  \<^verbatim>\<open>ValueError\<close> unless the sizes agree.
\<close>

definition reshape2 :: "nat \<Rightarrow> nat \<Rightarrow> 'a list \<Rightarrow> error + 'a list list" where
  "reshape2 n m pts =
     (if length pts = n * m then Inr (map (\<lambda>i. take m (drop (i * m) pts)) [0..<n])
      else Inl ValueError)"

text \<open>The slice assignment \<^verbatim>\<open>a[:, j, :] = plane\<close>.\<close>

definition set_plane :: "array3 \<Rightarrow> nat \<Rightarrow> array2 \<Rightarrow> array3" where
  "set_plane a j plane = map (\<lambda>(row, p). row[j := p]) (zip a plane)"

text \<open>The element assignment \<^verbatim>\<open>a[i, j, k] = v\<close>.\<close>

definition setitem3 :: "array3 \<Rightarrow> nat \<Rightarrow> nat \<Rightarrow> nat \<Rightarrow> real \<Rightarrow> array3" where
  "setitem3 a i j k v = a[i := (a ! i)[j := (a ! i ! j)[k := v]]]"

subsection \<open>Grid and magnetic field\<close>

text \<open>
  The attributes of the grid object that the three functions read. The point counts are
  natural numbers (the grid stores \<^verbatim>\<open>int(nx)\<close>; a negative count makes \<^verbatim>\<open>np.zeros\<close>
  fail before anything else happens).
\<close>

record grid =
  nx :: nat
  ny :: nat
  nz :: nat
  xarray :: array1
  yarray :: array1
  zarray :: array1
  delta_x :: real
  delta_y :: real
  delta_z :: real
  Rmaj :: real

text \<open>The field evaluator: \<^verbatim>\<open>Bxfunc(x, z, y)\<close> and \<^verbatim>\<open>Bzfunc(x, z, y)\<close>.\<close>

record magnetic_field =
  Bxfunc :: "real \<Rightarrow> real \<Rightarrow> real \<Rightarrow> real"
  Bzfunc :: "real \<Rightarrow> real \<Rightarrow> real \<Rightarrow> real"

text \<open>The invariant of a grid: the coordinate arrays have lengths nx, ny and nz.\<close>

definition well_shaped :: "grid \<Rightarrow> bool" where
  "well_shaped g \<longleftrightarrow>
     length (xarray g) = nx g \<and> length (yarray g) = ny g \<and> length (zarray g) = nz g"

subsection \<open>The map builder\<close>

text \<open>
  \<^verbatim>\<open>FieldTracer(magnetic_field).follow_field_lines(x_values, z_values, y_values)\<close>
  returns an array of shape \<open>(len y_values, npoints, 2)\<close>: for each angle in
  \<open>y_values\<close> the \<open>(x, z)\<close> position of every start point, or raises.
\<close>

type_synonym tracer =
  "magnetic_field \<Rightarrow> array1 \<Rightarrow> array1 \<Rightarrow> array1 \<Rightarrow> error + (real \<times> real) list list"

text \<open>
  \<^verbatim>\<open>update_progress(fraction, **kwargs)\<close> acts on a state of its own (the terminal)
  or raises.
\<close>

type_synonym 's progress = "real \<Rightarrow> 's \<Rightarrow> error + 's"

type_synonym maps = "string \<rightharpoonup> array3"

text \<open>
  One traced step from plane \<open>j\<close> by the angle \<open>dy\<close>:
  \<^verbatim>\<open>coord = follow_field_lines(x_coords, z_coords, [yarray[j], dy])[1,...]\<close>,
  \<^verbatim>\<open>coord = coord.reshape((nx, nz, 2))\<close>, and the two index arrays
  \<^verbatim>\<open>coord[:,:,0] / delta_x\<close>, \<^verbatim>\<open>coord[:,:,1] / delta_z\<close>. The quotients are
  those of the reals: numpy rounds them to float64, and for a step of 0 it gives
  \<^verbatim>\<open>inf\<close> or \<^verbatim>\<open>nan\<close> without raising, which the model does not represent.
\<close>

definition trace_plane ::
  "tracer \<Rightarrow> grid \<Rightarrow> magnetic_field \<Rightarrow> array1 \<Rightarrow> array1 \<Rightarrow> nat \<Rightarrow> real \<Rightarrow> error + array2 \<times> array2"
where
  "trace_plane follow_field_lines g B x_coords z_coords j dy =
     bindE (getitem (yarray g) j) (\<lambda>y.
     bindE (follow_field_lines B x_coords z_coords [y, dy]) (\<lambda>result.
     bindE (getitem result 1) (\<lambda>pts.
     bindE (reshape2 (nx g) (nz g) pts) (\<lambda>coord.
       Inr (map (map (\<lambda>p. fst p / delta_x g)) coord,
            map (map (\<lambda>p. snd p / delta_z g)) coord)))))"

text \<open>
  The tracing part of the loop body for plane \<open>j\<close>, on the four arrays
  (forward x, forward z, backward x, backward z).
\<close>

definition trace_step ::
  "tracer \<Rightarrow> grid \<Rightarrow> magnetic_field \<Rightarrow> array2 \<Rightarrow> array2 \<Rightarrow> nat \<Rightarrow>
   array3 \<times> array3 \<times> array3 \<times> array3 \<Rightarrow> error + array3 \<times> array3 \<times> array3 \<times> array3"
where
  "trace_step follow_field_lines g B x2d z2d j arrs =
     (case arrs of (forward_xt_prime, forward_zt_prime, backward_xt_prime, backward_zt_prime) \<Rightarrow>
        let x_coords = flatten x2d; z_coords = flatten z2d in
        bindE (trace_plane follow_field_lines g B x_coords z_coords j (delta_y g)) (\<lambda>(cx, cz).
          let forward_xt_prime = set_plane forward_xt_prime j cx;
              forward_zt_prime = set_plane forward_zt_prime j cz in
          bindE (trace_plane follow_field_lines g B x_coords z_coords j (- delta_y g)) (\<lambda>(cx, cz).
            let backward_xt_prime = set_plane backward_xt_prime j cx;
                backward_zt_prime = set_plane backward_zt_prime j cz in
            Inr (forward_xt_prime, forward_zt_prime, backward_xt_prime, backward_zt_prime))))"

text \<open>
  The first statement of the loop body:
  \<^verbatim>\<open>if not quiet: update_progress(float(j)/float(ny-1), **kwargs)\<close>.
\<close>

definition report_progress :: "grid \<Rightarrow> bool \<Rightarrow> 's progress \<Rightarrow> nat \<Rightarrow> 's \<Rightarrow> error + 's" where
  "report_progress g quiet update_progress j s =
     (if \<not> quiet then
        bindE (py_float_div (real j) (real_of_int (int (ny g) - 1))) (\<lambda>fraction.
          update_progress fraction s)
      else Inr s)"

text \<open>
  The loop \<^verbatim>\<open>for j in range(ny)\<close>. The state of the progress reporter is returned also
  when the loop is left by an exception.
\<close>

fun planes_loop ::
  "tracer \<Rightarrow> 's progress \<Rightarrow> grid \<Rightarrow> magnetic_field \<Rightarrow> bool \<Rightarrow> array2 \<Rightarrow> array2 \<Rightarrow> nat list \<Rightarrow>
   array3 \<times> array3 \<times> array3 \<times> array3 \<Rightarrow> 's \<Rightarrow>
   (error + array3 \<times> array3 \<times> array3 \<times> array3) \<times> 's"
where
  "planes_loop follow_field_lines update_progress g B quiet x2d z2d [] arrs s = (Inr arrs, s)"
| "planes_loop follow_field_lines update_progress g B quiet x2d z2d (j # js) arrs s =
     (case report_progress g quiet update_progress j s of
        Inl e \<Rightarrow> (Inl e, s)
      | Inr s' \<Rightarrow>
          (case trace_step follow_field_lines g B x2d z2d j arrs of
             Inl e \<Rightarrow> (Inl e, s')
           | Inr arrs' \<Rightarrow>
               planes_loop follow_field_lines update_progress g B quiet x2d z2d js arrs' s'))"

text \<open>The dictionary that \<^verbatim>\<open>make_maps\<close> returns.\<close>

definition maps_dict :: "array3 \<times> array3 \<times> array3 \<times> array3 \<Rightarrow> maps" where
  "maps_dict arrs =
     (case arrs of (forward_xt_prime, forward_zt_prime, backward_xt_prime, backward_zt_prime) \<Rightarrow>
        [''forward_xt_prime'' \<mapsto> forward_xt_prime,
         ''forward_zt_prime'' \<mapsto> forward_zt_prime,
         ''backward_xt_prime'' \<mapsto> backward_xt_prime,
         ''backward_zt_prime'' \<mapsto> backward_zt_prime])"

text \<open>
  \<^verbatim>\<open>make_maps(grid, magnetic_field, quiet, **kwargs)\<close>. The first two arguments of the
  model are the collaborators \<^verbatim>\<open>fieldtracer.FieldTracer(...).follow_field_lines\<close> and
  \<^verbatim>\<open>update_progress\<close>; the last is the state the progress reporter starts in.
\<close>

definition make_maps ::
  "tracer \<Rightarrow> 's progress \<Rightarrow> grid \<Rightarrow> magnetic_field \<Rightarrow> bool \<Rightarrow> 's \<Rightarrow> (error + maps) \<times> 's"
where
  "make_maps follow_field_lines update_progress g B quiet s =
     (let forward_xt_prime = zeros3 (nx g) (ny g) (nz g);
          forward_zt_prime = zeros3 (nx g) (ny g) (nz g);
          backward_xt_prime = zeros3 (nx g) (ny g) (nz g);
          backward_zt_prime = zeros3 (nx g) (ny g) (nz g);
          (x2d, z2d) = meshgrid_ij (xarray g) (zarray g)
      in case planes_loop follow_field_lines update_progress g B quiet x2d z2d [0..<ny g]
                (forward_xt_prime, forward_zt_prime, backward_xt_prime, backward_zt_prime) s of
           (Inl e, s') \<Rightarrow> (Inl e, s')
         | (Inr arrs, s') \<Rightarrow> (Inr (maps_dict arrs), s'))"

text \<open>\<^verbatim>\<open>maps[key][i, j, k]\<close>, when the key is present and the indices are in range.\<close>

definition entry :: "maps \<Rightarrow> string \<Rightarrow> nat \<Rightarrow> nat \<Rightarrow> nat \<Rightarrow> real option" where
  "entry m key i j k =
     (case m key of
        None \<Rightarrow> None
      | Some a \<Rightarrow>
          if i < length a \<and> j < length (a ! i) \<and> k < length (a ! i ! j)
          then Some (a ! i ! j ! k) else None)"

subsection \<open>The grid file writer\<close>

text \<open>
  A grid file is a store of named values; the file system maps file names to files.
  \<^verbatim>\<open>DataFile(gridfile, write=True, create=True)\<close> starts from an empty file, and what
  has been written stays in the file when a later statement raises.
\<close>

datatype fval = IntV int | FloatV real | Arr2 array2 | Arr3 array3

type_synonym datafile = "string \<rightharpoonup> fval"
type_synonym filesystem = "string \<rightharpoonup> datafile"

text \<open>
  The body of the innermost loop of \<^verbatim>\<open>write_maps\<close>, on the arrays
  \<open>(Bxy, totalbx, totalbz)\<close>.
\<close>

definition field_point ::
  "grid \<Rightarrow> magnetic_field \<Rightarrow> nat \<Rightarrow> nat \<Rightarrow> nat \<Rightarrow>
   array3 \<times> array3 \<times> array3 \<Rightarrow> error + array3 \<times> array3 \<times> array3"
where
  "field_point g B i j k arrs =
     (case arrs of (Bxy, totalbx, totalbz) \<Rightarrow>
        bindE (getitem (xarray g) i) (\<lambda>x.
        bindE (getitem (zarray g) k) (\<lambda>z.
        bindE (getitem (yarray g) j) (\<lambda>y.
          Inr (setitem3 Bxy i j k (sqrt ((Bxfunc B x z y)\<^sup>2 + (Bzfunc B x z y)\<^sup>2)),
               setitem3 totalbx i j k (Bxfunc B x z y),
               setitem3 totalbz i j k (Bzfunc B x z y))))))"

text \<open>The three nested loops over \<open>i\<close>, \<open>j\<close> and \<open>k\<close>.\<close>

definition field_arrays :: "grid \<Rightarrow> magnetic_field \<Rightarrow> error + array3 \<times> array3 \<times> array3" where
  "field_arrays g B =
     for_loop [0..<nx g] (\<lambda>i.
       for_loop [0..<ny g] (\<lambda>j.
         for_loop [0..<nz g] (\<lambda>k. field_point g B i j k)))
       (zeros3 (nx g) (ny g) (nz g), zeros3 (nx g) (ny g) (nz g), zeros3 (nx g) (ny g) (nz g))"

text \<open>
  \<^verbatim>\<open>a[:, :, 0]\<close> of an array whose last axis has size \<open>n3\<close>: numpy raises
  \<^verbatim>\<open>IndexError\<close> when that axis is empty.
\<close>

definition slice_z0 :: "nat \<Rightarrow> array3 \<Rightarrow> error + array2" where
  "slice_z0 n3 a = (if n3 = 0 then Inl IndexError else Inr (map (map (\<lambda>r. r ! 0)) a))"

text \<open>Statements on the open file, run in sequence until one raises.\<close>

fun run_all :: "('f \<Rightarrow> (error + unit) \<times> 'f) list \<Rightarrow> 'f \<Rightarrow> (error + unit) \<times> 'f" where
  "run_all [] f = (Inr (), f)"
| "run_all (stmt # stmts) f =
     (case stmt f of (Inl e, f') \<Rightarrow> (Inl e, f') | (Inr u, f') \<Rightarrow> run_all stmts f')"

text \<open>\<^verbatim>\<open>f.write(name, v)\<close>.\<close>

definition fwrite :: "string \<Rightarrow> fval \<Rightarrow> datafile \<Rightarrow> (error + unit) \<times> datafile" where
  "fwrite name v f = (Inr (), f(name \<mapsto> v))"

text \<open>
  \<^verbatim>\<open>f.write(key, conv(maps[key]))\<close>, where \<open>conv\<close> is \<^verbatim>\<open>transform3D\<close> in a legacy file
  and nothing otherwise. A missing key raises \<^verbatim>\<open>KeyError\<close>.
\<close>

definition write_map :: "(array3 \<Rightarrow> array3) \<Rightarrow> maps \<Rightarrow> string \<Rightarrow> datafile \<Rightarrow> (error + unit) \<times> datafile" where
  "write_map conv m key f =
     (case m key of None \<Rightarrow> (Inl KeyError, f) | Some a \<Rightarrow> fwrite key (Arr3 (conv a)) f)"

text \<open>The body of the \<^verbatim>\<open>with\<close> block of \<^verbatim>\<open>write_maps\<close>.\<close>

definition write_body ::
  "(array3 \<Rightarrow> array3) \<Rightarrow> grid \<Rightarrow> maps \<Rightarrow> bool \<Rightarrow> array2 \<Rightarrow> array3 \<Rightarrow> array3 \<Rightarrow> array3 \<Rightarrow>
   datafile \<Rightarrow> (error + unit) \<times> datafile"
where
  "write_body transform3D g m legacy g_22 Bxy totalbx totalbz =
     (let ixseps = int (nx g) + 1 in
      run_all
       ([fwrite ''nx'' (IntV (int (nx g))),
         fwrite ''ny'' (IntV (int (ny g)))]
        @ (if \<not> legacy then [fwrite ''nz'' (IntV (int (nz g)))] else [])
        @ [fwrite ''dx'' (FloatV (delta_x g)),
           fwrite ''dy'' (FloatV (delta_y g)),
           fwrite ''ixseps1'' (IntV ixseps),
           fwrite ''ixseps2'' (IntV ixseps),
           fwrite ''g_22'' (Arr2 g_22),
           (\<lambda>f. case slice_z0 (nz g) Bxy of
                  Inl e \<Rightarrow> (Inl e, f)
                | Inr s \<Rightarrow> fwrite ''Bxy'' (Arr2 s) f),
           fwrite ''bx'' (Arr3 totalbx),
           fwrite ''bz'' (Arr3 totalbz)]
        @ (if legacy then
             [write_map transform3D m ''forward_xt_prime'',
              write_map transform3D m ''forward_zt_prime'',
              write_map transform3D m ''backward_xt_prime'',
              write_map transform3D m ''backward_zt_prime'']
           else
             [write_map (\<lambda>a. a) m ''forward_xt_prime'',
              write_map (\<lambda>a. a) m ''forward_zt_prime'',
              write_map (\<lambda>a. a) m ''backward_xt_prime'',
              write_map (\<lambda>a. a) m ''backward_zt_prime''])))"

text \<open>
  \<^verbatim>\<open>write_maps(grid, magnetic_field, maps, gridfile, legacy)\<close>. The first argument of
  the model is the collaborator \<^verbatim>\<open>boutdata.input.transform3D\<close>. Nothing is opened when
  the arrays cannot be computed: \<^verbatim>\<open>1./grid.Rmaj**2\<close> raises for \<open>Rmaj = 0\<close>, and the
  loops raise when a coordinate array is too short.
\<close>

definition write_maps ::
  "(array3 \<Rightarrow> array3) \<Rightarrow> grid \<Rightarrow> magnetic_field \<Rightarrow> maps \<Rightarrow> string \<Rightarrow> bool \<Rightarrow>
   filesystem \<Rightarrow> (error + unit) \<times> filesystem"
where
  "write_maps transform3D g B m gridfile legacy fs =
     (case py_float_div 1 ((Rmaj g)\<^sup>2) of
        Inl e \<Rightarrow> (Inl e, fs)
      | Inr c \<Rightarrow>
          let g_22 = map (map (\<lambda>v. v + c)) (zeros2 (nx g) (ny g)) in
          (case field_arrays g B of
             Inl e \<Rightarrow> (Inl e, fs)
           | Inr (Bxy, totalbx, totalbz) \<Rightarrow>
               (case write_body transform3D g m legacy g_22 Bxy totalbx totalbz Map.empty of
                  (r, f) \<Rightarrow> (r, fs(gridfile \<mapsto> f)))))"

text \<open>Reading a file back: its value under a name, if the file and the name exist.\<close>

definition stored :: "filesystem \<Rightarrow> string \<Rightarrow> string \<Rightarrow> fval option" where
  "stored fs file name = (case fs file of None \<Rightarrow> None | Some f \<Rightarrow> f name)"

subsection \<open>The visualization exporter\<close>

text \<open>
  \<^verbatim>\<open>f.read(name)\<close> gives \<^verbatim>\<open>None\<close> for a name the file does not have (the exporter
  tests \<^verbatim>\<open>bx is None\<close>), so a read is a lookup with an optional result.
\<close>

text \<open>\<^verbatim>\<open>np.ones(v.shape)\<close>; on \<^verbatim>\<open>None\<close> the attribute access raises.\<close>

fun ones_like :: "fval option \<Rightarrow> error + fval" where
  "ones_like None = Inl AttributeError"
| "ones_like (Some (IntV n)) = Inr (FloatV 1)"
| "ones_like (Some (FloatV r)) = Inr (FloatV 1)"
| "ones_like (Some (Arr2 a)) = Inr (Arr2 (map (map (\<lambda>v. 1)) a))"
| "ones_like (Some (Arr3 a)) = Inr (Arr3 (map (map (map (\<lambda>v. 1))) a))"

text \<open>
  \<^verbatim>\<open>nx, ny, nz = bx.shape\<close>: only a three-dimensional array unpacks into three counts.
  The shape is read off the nested lists, so an axis behind an empty axis counts as empty.
\<close>

fun shape3 :: "fval option \<Rightarrow> error + nat \<times> nat \<times> nat" where
  "shape3 None = Inl AttributeError"
| "shape3 (Some (Arr3 a)) =
     Inr (length a,
          (case a of [] \<Rightarrow> 0 | r # _ \<Rightarrow> length r),
          (case a of (p # _) # _ \<Rightarrow> length p | _ \<Rightarrow> 0))"
| "shape3 (Some v) = Inl ValueError"

text \<open>
  A scalar read from the file, used in arithmetic. \<^verbatim>\<open>None\<close> in a product raises
  \<^verbatim>\<open>TypeError\<close>; an array in the place of \<^verbatim>\<open>dx\<close> or \<^verbatim>\<open>dy\<close> is no grid file of
  \<^verbatim>\<open>write_maps\<close> and is reported the same way.
\<close>

fun as_number :: "fval option \<Rightarrow> error + real" where
  "as_number (Some (IntV n)) = Inr (real_of_int n)"
| "as_number (Some (FloatV r)) = Inr r"
| "as_number v = Inl TypeError"

text \<open>\<^verbatim>\<open>v * c\<close> for a value read from the file.\<close>

fun scaled :: "real \<Rightarrow> fval option \<Rightarrow> error + fval" where
  "scaled c None = Inl TypeError"
| "scaled c (Some (IntV n)) = Inr (FloatV (real_of_int n * c))"
| "scaled c (Some (FloatV r)) = Inr (FloatV (r * c))"
| "scaled c (Some (Arr2 a)) = Inr (Arr2 (map (map (\<lambda>v. v * c)) a))"
| "scaled c (Some (Arr3 a)) = Inr (Arr3 (map (map (map (\<lambda>v. v * c))) a))"

text \<open>\<^verbatim>\<open>np.linspace(0, stop, n)\<close>.\<close>

definition linspace0 :: "real \<Rightarrow> nat \<Rightarrow> array1" where
  "linspace0 stop n =
     (if n = 1 then [0] else map (\<lambda>i. real i * (stop / (real n - 1))) [0..<n])"

text \<open>
  The body of the \<^verbatim>\<open>with\<close> block of \<^verbatim>\<open>fci_to_vtk\<close>: it gives \<open>dx\<close>, \<open>dy\<close>, the three
  field components, the three counts and \<open>dz\<close>. The branch for a file without \<^verbatim>\<open>bx\<close>
  calls \<^verbatim>\<open>indices\<close>, a name that the module does not define. The quotient
  \<^verbatim>\<open>nx*dx / nz\<close> is a numpy division, which does not raise.
\<close>

definition read_fields ::
  "datafile \<Rightarrow> error + real \<times> real \<times> fval option \<times> fval \<times> fval option \<times> nat \<times> nat \<times> nat \<times> real"
where
  "read_fields f =
     (let dx = f ''dx''; dy = f ''dy''; bx = f ''bx'' in
      bindE (ones_like bx) (\<lambda>by.
        let bz = f ''bz'' in
        bindE (if bx = None then
                 (let xt_prime = f ''forward_xt_prime''; zt_prime = f ''forward_zt_prime''
                  in Inl NameError)
               else Inr (bx, by, bz)) (\<lambda>(bx, by, bz).
        bindE (shape3 bx) (\<lambda>(nx, ny, nz).
        bindE (as_number dx) (\<lambda>dx.
        bindE (as_number dy) (\<lambda>dy.
          let dz = real nx * dx / real nz in
          Inr (dx, dy, bx, by, bz, nx, ny, nz, dz)))))))"

text \<open>
  \<^verbatim>\<open>gridToVTK(path, x, y, z, pointData={'B': (bx, by, bz)})\<close> of the VTK back end
  acts on a state of its own (the output files) or raises.
\<close>

type_synonym 'v vtk_writer =
  "string \<Rightarrow> array1 \<Rightarrow> array1 \<Rightarrow> array1 \<Rightarrow> fval \<times> fval \<times> fval \<Rightarrow> 'v \<Rightarrow> error + 'v"

text \<open>
  \<^verbatim>\<open>fci_to_vtk(infile, outfile, scale)\<close>. The first two arguments of the model are the
  module's flag \<^verbatim>\<open>have_evtk\<close> and the back end's \<^verbatim>\<open>gridToVTK\<close>. Opening a file that
  does not exist raises \<^verbatim>\<open>IOError\<close>.
\<close>

definition fci_to_vtk ::
  "bool \<Rightarrow> 'v vtk_writer \<Rightarrow> filesystem \<Rightarrow> string \<Rightarrow> string \<Rightarrow> real \<Rightarrow> 'v \<Rightarrow> (error + unit) \<times> 'v"
where
  "fci_to_vtk have_evtk gridToVTK fs infile outfile scale out =
     (if \<not> have_evtk then (Inr (), out)
      else
        case bindE (case fs infile of None \<Rightarrow> Inl IOError | Some f \<Rightarrow> read_fields f)
               (\<lambda>(dx, dy, bx, by, bz, nx, ny, nz, dz).
                  let x = linspace0 (real nx * dx) nx;
                      y = linspace0 (real ny * dy) ny;
                      z = linspace0 (real nz * dz) nz
                  in bindE (scaled scale bx) (\<lambda>bxs.
                     bindE (scaled scale bz) (\<lambda>bzs.
                       gridToVTK outfile (map (\<lambda>v. v * scale) x) y (map (\<lambda>v. v * scale) z)
                         (bxs, by, bzs) out)))
        of Inl e \<Rightarrow> (Inl e, out)
         | Inr out' \<Rightarrow> (Inr (), out'))"

subsection \<open>Zero fields and sample inputs\<close>

definition is_zero_field :: "magnetic_field \<Rightarrow> bool" where
  "is_zero_field B \<longleftrightarrow> (\<forall>x z y. Bxfunc B x z y = 0 \<and> Bzfunc B x z y = 0)"

text \<open>
  Modelled from the spec: the field-line tracer (module \<^verbatim>\<open>fieldtracer\<close>, which is not
  among the sources) "integrates the ODE implied by the field direction and returns
  final (x, z) positions for every starting point". Where the field has neither an x
  nor a z component the position does not change along the line, so on a zero field
  the tracer gives back the start points (one x and one z value each) at every
  requested angle.
\<close>

definition holds_zero_field_lines :: "tracer \<Rightarrow> bool" where
  "holds_zero_field_lines follow_field_lines \<longleftrightarrow>
     (\<forall>B xs zs ys. is_zero_field B \<and> length xs = length zs \<longrightarrow>
        follow_field_lines B xs zs ys = Inr (map (\<lambda>y. zip xs zs) ys))"

definition zero_B :: magnetic_field where
  "zero_B = \<lparr>Bxfunc = (\<lambda>x z y. 0), Bzfunc = (\<lambda>x z y. 0)\<rparr>"

text \<open>A field that points along x with the strength of the x coordinate.\<close>

definition radial_B :: magnetic_field where
  "radial_B = \<lparr>Bxfunc = (\<lambda>x z y. x), Bzfunc = (\<lambda>x z y. 0)\<rparr>"

text \<open>A tracer that leaves every point where it starts.\<close>

definition still_tracer :: tracer where
  "still_tracer B xs zs ys = Inr (map (\<lambda>y. zip xs zs) ys)"

text \<open>A tracer that cannot advance from the angle \<open>y_bad\<close>.\<close>

definition breaking_tracer :: "real \<Rightarrow> tracer" where
  "breaking_tracer y_bad B xs zs ys =
     (if ys \<noteq> [] \<and> hd ys = y_bad then Inl (Raised ''TracingError'')
      else Inr (map (\<lambda>y. zip xs zs) ys))"

text \<open>A progress reporter that records the fractions it is called with.\<close>

definition record_progress :: "real list progress" where
  "record_progress fraction calls = Inr (calls @ [fraction])"

text \<open>A grid whose coordinates are the indices: unit steps, first point at 0.\<close>

definition index_grid :: grid where
  "index_grid =
     \<lparr>nx = 2, ny = 3, nz = 2,
      xarray = [0, 1], yarray = [0, 1, 2], zarray = [0, 1],
      delta_x = 1, delta_y = 1, delta_z = 1, Rmaj = 2\<rparr>"

text \<open>A grid with unit steps whose x coordinates are the cell centres 1/2 and 3/2.\<close>

definition centred_grid :: grid where
  "centred_grid =
     \<lparr>nx = 2, ny = 2, nz = 2,
      xarray = [1 / 2, 3 / 2], yarray = [0, 1], zarray = [0, 1],
      delta_x = 1, delta_y = 1, delta_z = 1, Rmaj = 1\<rparr>"

text \<open>A grid with a single toroidal plane.\<close>

definition single_plane_grid :: grid where
  "single_plane_grid =
     \<lparr>nx = 2, ny = 1, nz = 2,
      xarray = [0, 1], yarray = [0], zarray = [0, 1],
      delta_x = 1, delta_y = 1, delta_z = 1, Rmaj = 1\<rparr>"

text \<open>A progress reporter whose terminal is gone: every call raises.\<close>

definition failing_progress :: "unit progress" where
  "failing_progress fraction u = Inl (Raised ''closed terminal'')"

text \<open>The maps of \<open>index_grid\<close> in a zero field.\<close>

definition index_maps :: maps where
  "index_maps = maps_dict
     ([[[0, 0], [0, 0], [0, 0]], [[1, 1], [1, 1], [1, 1]]],
      [[[0, 1], [0, 1], [0, 1]], [[0, 1], [0, 1], [0, 1]]],
      [[[0, 0], [0, 0], [0, 0]], [[1, 1], [1, 1], [1, 1]]],
      [[[0, 1], [0, 1], [0, 1]], [[0, 1], [0, 1], [0, 1]]])"

subsection \<open>The loop without its progress reports\<close>

text \<open>
  The mesh that \<^verbatim>\<open>make_maps\<close> builds before the loop, and the loop with the
  progress report taken out of its body: what a quiet run computes.
\<close>

definition x2d_of :: "grid \<Rightarrow> array2" where
  "x2d_of g = fst (meshgrid_ij (xarray g) (zarray g))"

definition z2d_of :: "grid \<Rightarrow> array2" where
  "z2d_of g = snd (meshgrid_ij (xarray g) (zarray g))"

definition tracing ::
  "tracer \<Rightarrow> grid \<Rightarrow> magnetic_field \<Rightarrow> error + array3 \<times> array3 \<times> array3 \<times> array3"
where
  "tracing follow_field_lines g B =
     for_loop [0..<ny g] (trace_step follow_field_lines g B (x2d_of g) (z2d_of g))
       (zeros3 (nx g) (ny g) (nz g), zeros3 (nx g) (ny g) (nz g),
        zeros3 (nx g) (ny g) (nz g), zeros3 (nx g) (ny g) (nz g))"

text \<open>The maps of \<open>centred_grid\<close> in a zero field.\<close>

definition centred_maps :: maps where
  "centred_maps = maps_dict
     ([[[1 / 2, 1 / 2], [1 / 2, 1 / 2]], [[3 / 2, 3 / 2], [3 / 2, 3 / 2]]],
      [[[0, 1], [0, 1]], [[0, 1], [0, 1]]],
      [[[1 / 2, 1 / 2], [1 / 2, 1 / 2]], [[3 / 2, 3 / 2], [3 / 2, 3 / 2]]],
      [[[0, 1], [0, 1]], [[0, 1], [0, 1]]])"

text \<open>
  A stand-in for the legacy transform in the sample runs: it reverses the last axis.
\<close>

definition mirror_z :: "array3 \<Rightarrow> array3" where
  "mirror_z a = map (map rev) a"

text \<open>A grid file that holds the maps but neither \<^verbatim>\<open>bx\<close> nor \<^verbatim>\<open>bz\<close>.\<close>

definition maps_only_file :: datafile where
  "maps_only_file =
     [''nx'' \<mapsto> IntV 1, ''ny'' \<mapsto> IntV 1, ''nz'' \<mapsto> IntV 1,
      ''dx'' \<mapsto> FloatV 1, ''dy'' \<mapsto> FloatV 1,
      ''forward_xt_prime'' \<mapsto> Arr3 [[[0]]], ''forward_zt_prime'' \<mapsto> Arr3 [[[0]]],
      ''backward_xt_prime'' \<mapsto> Arr3 [[[0]]], ''backward_zt_prime'' \<mapsto> Arr3 [[[0]]]]"

subsection \<open>Closed forms of the filled arrays\<close>

text \<open>
  The planes that a tracer which leaves every point in place writes into the maps:
  the coordinates of the mesh in units of the grid steps.
\<close>

definition x_plane :: "grid \<Rightarrow> array2" where
  "x_plane g = map (\<lambda>x. map (\<lambda>z. x / delta_x g) (zarray g)) (xarray g)"

definition z_plane :: "grid \<Rightarrow> array2" where
  "z_plane g = map (\<lambda>x. map (\<lambda>z. z / delta_z g) (zarray g)) (xarray g)"

text \<open>The array of shape \<open>(n1, n2, n3)\<close> whose entry \<open>(i, j, k)\<close> is \<open>h i j k\<close>.\<close>

definition table3 :: "nat \<Rightarrow> nat \<Rightarrow> nat \<Rightarrow> (nat \<Rightarrow> nat \<Rightarrow> nat \<Rightarrow> real) \<Rightarrow> array3" where
  "table3 n1 n2 n3 h = map (\<lambda>i. map (\<lambda>j. map (\<lambda>k. h i j k) [0..<n3]) [0..<n2]) [0..<n1]"

text \<open>The field magnitude at the grid point \<open>(i, j, k)\<close>.\<close>

definition field_strength :: "grid \<Rightarrow> magnetic_field \<Rightarrow> nat \<Rightarrow> nat \<Rightarrow> nat \<Rightarrow> real" where
  "field_strength g B i j k =
     sqrt ((Bxfunc B (xarray g ! i) (zarray g ! k) (yarray g ! j))\<^sup>2 +
           (Bzfunc B (xarray g ! i) (zarray g ! k) (yarray g ! j))\<^sup>2)"

section \<open>Properties of the map builder\<close>

subsection \<open>Errors and loops\<close>

lemma bindE_simps [simp]:
  "bindE (Inl e) f = Inl e"
  "bindE (Inr x) f = f x"
  by (simp_all add: bindE_def)

lemma bindE_eq_Inr: "bindE m f = Inr r \<longleftrightarrow> (\<exists>x. m = Inr x \<and> f x = Inr r)"
  by (cases m) simp_all

lemma for_loop_pure:
  "(\<forall>j\<in>set js. \<forall>st. body j st = Inr (f j st)) \<Longrightarrow> for_loop js body st = Inr (fold f js st)"
  by (induction js arbitrary: st) simp_all

lemma for_loop_returns_body:
  "for_loop js body st = Inr r \<Longrightarrow> j \<in> set js \<Longrightarrow> \<exists>st1 st2. body j st1 = Inr st2"
  by (induction js arbitrary: st) (auto simp: bindE_eq_Inr)

lemma planes_loop_quiet:
  "planes_loop FT upd g B True x2d z2d js arrs s = (for_loop js (trace_step FT g B x2d z2d) arrs, s)"
  by (induction js arbitrary: arrs) (auto simp: report_progress_def split: sum.splits)

lemma planes_loop_returns:
  "planes_loop FT upd g B q x2d z2d js arrs s = (Inr r, s') \<Longrightarrow>
   for_loop js (trace_step FT g B x2d z2d) arrs = Inr r"
  by (induction js arbitrary: arrs s) (auto split: sum.splits)

lemma planes_loop_reporting:
  "(\<forall>j\<in>set js. \<forall>s. \<exists>s'. report_progress g q upd j s = Inr s') \<Longrightarrow>
   fst (planes_loop FT upd g B q x2d z2d js arrs s) = for_loop js (trace_step FT g B x2d z2d) arrs"
proof (induction js arbitrary: arrs s)
  case Nil
  then show ?case by simp
next
  case (Cons j js)
  from Cons.prems obtain s' where s': "report_progress g q upd j s = Inr s'"
    by (meson list.set_intros(1))
  show ?case
  proof (cases "trace_step FT g B x2d z2d j arrs")
    case (Inl e)
    then show ?thesis using s' by simp
  next
    case (Inr arrs')
    then show ?thesis using s' Cons.IH [of arrs' s'] Cons.prems by simp
  qed
qed

lemma trace_plane_returns:
  "trace_plane FT g B xc zc j dy = Inr r \<Longrightarrow>
   j < length (yarray g) \<and> (\<exists>res. FT B xc zc [yarray g ! j, dy] = Inr res)"
  by (auto simp: trace_plane_def bindE_eq_Inr getitem_def split: if_splits)

lemma trace_step_returns:
  "trace_step FT g B x2d z2d j arrs = Inr r \<Longrightarrow>
   (\<exists>r1. trace_plane FT g B (flatten x2d) (flatten z2d) j (delta_y g) = Inr r1) \<and>
   (\<exists>r2. trace_plane FT g B (flatten x2d) (flatten z2d) j (- delta_y g) = Inr r2)"
  by (auto simp: trace_step_def Let_def bindE_eq_Inr split: prod.splits)

subsection \<open>A run of the map builder and its tracing loop\<close>

lemma make_maps_unfold:
  "make_maps FT upd g B q s =
     (case planes_loop FT upd g B q (x2d_of g) (z2d_of g) [0..<ny g]
             (zeros3 (nx g) (ny g) (nz g), zeros3 (nx g) (ny g) (nz g),
              zeros3 (nx g) (ny g) (nz g), zeros3 (nx g) (ny g) (nz g)) s of
        (Inl e, s') \<Rightarrow> (Inl e, s')
      | (Inr arrs, s') \<Rightarrow> (Inr (maps_dict arrs), s'))"
  by (simp add: make_maps_def x2d_of_def z2d_of_def split: prod.splits)

lemma make_maps_quiet:
  "make_maps FT upd g B True s =
     (case tracing FT g B of Inl e \<Rightarrow> Inl e | Inr arrs \<Rightarrow> Inr (maps_dict arrs), s)"
  by (simp add: make_maps_unfold planes_loop_quiet tracing_def split: sum.splits)

lemma make_maps_returns:
  assumes "fst (make_maps FT upd g B q s) = Inr m"
  shows "\<exists>arrs. tracing FT g B = Inr arrs \<and> m = maps_dict arrs"
proof -
  obtain r s' where ps: "planes_loop FT upd g B q (x2d_of g) (z2d_of g) [0..<ny g]
             (zeros3 (nx g) (ny g) (nz g), zeros3 (nx g) (ny g) (nz g),
              zeros3 (nx g) (ny g) (nz g), zeros3 (nx g) (ny g) (nz g)) s = (r, s')"
    by (cases "planes_loop FT upd g B q (x2d_of g) (z2d_of g) [0..<ny g]
             (zeros3 (nx g) (ny g) (nz g), zeros3 (nx g) (ny g) (nz g),
              zeros3 (nx g) (ny g) (nz g), zeros3 (nx g) (ny g) (nz g)) s")
  with assms obtain arrs where r: "r = Inr arrs" and m: "m = maps_dict arrs"
    by (cases r) (auto simp: make_maps_unfold)
  from ps r have "tracing FT g B = Inr arrs"
    unfolding tracing_def by (auto dest: planes_loop_returns)
  with m show ?thesis by blast
qed

lemma make_maps_reporting:
  assumes "\<forall>j\<in>set [0..<ny g]. \<forall>s. \<exists>s'. report_progress g q upd j s = Inr s'"
  shows "fst (make_maps FT upd g B q s) =
         (case tracing FT g B of Inl e \<Rightarrow> Inl e | Inr arrs \<Rightarrow> Inr (maps_dict arrs))"
proof -
  have "fst (planes_loop FT upd g B q (x2d_of g) (z2d_of g) [0..<ny g]
             (zeros3 (nx g) (ny g) (nz g), zeros3 (nx g) (ny g) (nz g),
              zeros3 (nx g) (ny g) (nz g), zeros3 (nx g) (ny g) (nz g)) s) = tracing FT g B"
    unfolding tracing_def using assms by (rule planes_loop_reporting)
  then show ?thesis
    by (auto simp: make_maps_unfold split: prod.splits sum.splits)
qed

lemma report_progress_many_planes:
  assumes "ny g \<noteq> 1" "j < ny g" "\<forall>x s. \<exists>s'. upd x s = Inr s'"
  shows "\<exists>s'. report_progress g q upd j s = Inr s'"
  using assms by (auto simp: report_progress_def py_float_div_def)

subsection \<open>Runs on the sample grids\<close>

lemmas run_simps =
  make_maps_def meshgrid_ij_def zeros3_def zeros2_def flatten_def trace_step_def trace_plane_def
  getitem_def reshape2_def set_plane_def report_progress_def py_float_div_def
  still_tracer_def record_progress_def failing_progress_def zero_B_def
  upt_rec [of _ "numeral _"] upt_rec [of _ "Suc _"] eval_nat_numeral Let_def

lemma index_grid_run:
  "make_maps still_tracer record_progress index_grid zero_B False [] =
   (Inr index_maps, [0, 1 / 2, 1])"
  by (simp add: run_simps index_grid_def index_maps_def)

lemma index_grid_quiet_run:
  "make_maps still_tracer failing_progress index_grid zero_B True () = (Inr index_maps, ())"
  by (simp add: run_simps index_grid_def index_maps_def)

lemma record_progress_returns: "\<forall>x s. \<exists>s'. record_progress x s = Inr s'"
  by (simp add: record_progress_def)

subsection \<open>Progress reporting\<close>

text \<open>
  Claim C2, evaluated on the code: on a grid with a single plane a run that reports
  progress computes \<^verbatim>\<open>float(0)/float(0)\<close> in its first iteration and leaves with
  \<^verbatim>\<open>ZeroDivisionError\<close>, before the reporter is called and before anything is traced.
\<close>

theorem single_plane_progress_raises:
  "make_maps FT upd single_plane_grid B False s = (Inl ZeroDivisionError, s)"
  by (simp add: make_maps_def report_progress_def py_float_div_def single_plane_grid_def
      split: prod.splits)

lemma planes_loop_record:
  "ny g \<noteq> 1 \<Longrightarrow>
   planes_loop FT record_progress g B False x2d z2d js arrs calls = (Inr r, calls') \<Longrightarrow>
   calls' = calls @ map (\<lambda>j. real j / (real (ny g) - 1)) js"
proof (induction js arbitrary: arrs calls)
  case Nil
  then show ?case by simp
next
  case (Cons j js)
  have rp: "report_progress g False record_progress j calls = Inr (calls @ [real j / (real (ny g) - 1)])"
    using Cons.prems(1) by (simp add: report_progress_def py_float_div_def record_progress_def)
  from Cons.prems(2) obtain arrs' where
    "planes_loop FT record_progress g B False x2d z2d js arrs' (calls @ [real j / (real (ny g) - 1)]) = (Inr r, calls')"
    by (auto simp: rp split: sum.splits)
  from Cons.IH [OF Cons.prems(1) this] show ?case by simp
qed

lemma fractions_increasing:
  assumes "1 < n"
  shows "sorted_wrt (<) (map (\<lambda>j. real j / (real n - 1)) [0..<n])"
proof -
  have "\<And>a b. a < b \<Longrightarrow> real a / (real n - 1) < real b / (real n - 1)"
    using assms by (simp add: divide_strict_right_mono)
  then show ?thesis
    by (simp add: sorted_wrt_map sorted_wrt_mono_rel [OF _ sorted_wrt_upt])
qed

text \<open>
  Claim C5: on a grid with more than one plane, a run with progress reporting that
  returns its maps has called the reporter exactly \<open>ny\<close> times, with the fractions
  \<open>j / (ny - 1)\<close> for \<open>j = 0, \<dots>, ny - 1\<close> in this order: the first is 0, the last is 1,
  and they increase strictly. The calls are observed by a reporter that records its
  arguments.
\<close>

theorem progress_fractions:
  assumes "1 < ny g"
    and "make_maps FT record_progress g B False [] = (Inr m, calls)"
  shows "calls = map (\<lambda>j. real j / (real (ny g) - 1)) [0..<ny g] \<and>
         length calls = ny g \<and> sorted_wrt (<) calls \<and> hd calls = 0 \<and> last calls = 1"
proof -
  from assms(2) obtain arrs where
    "planes_loop FT record_progress g B False (x2d_of g) (z2d_of g) [0..<ny g]
       (zeros3 (nx g) (ny g) (nz g), zeros3 (nx g) (ny g) (nz g),
        zeros3 (nx g) (ny g) (nz g), zeros3 (nx g) (ny g) (nz g)) [] = (Inr arrs, calls)"
    by (auto simp: make_maps_unfold split: prod.splits sum.splits)
  from planes_loop_record [OF _ this] assms(1)
  have c: "calls = map (\<lambda>j. real j / (real (ny g) - 1)) [0..<ny g]"
    by simp
  have h: "hd (map (\<lambda>j. real j / (real (ny g) - 1)) [0..<ny g]) = 0"
    using assms(1) by (simp add: hd_map upt_rec [of 0])
  have l: "last (map (\<lambda>j. real j / (real (ny g) - 1)) [0..<ny g]) = 1"
    using assms(1) by (simp add: last_map of_nat_diff)
  show ?thesis
    using assms(1) c h l fractions_increasing [of "ny g"] by simp
qed

theorem progress_fractions_witness:
  "1 < ny index_grid \<and>
   make_maps still_tracer record_progress index_grid zero_B False [] =
     (Inr index_maps, [0, 1 / 2, 1]) \<and>
   [0, 1 / 2, 1] = map (\<lambda>j. real j / (real (ny index_grid) - 1)) [0..<ny index_grid] \<and>
   length [0, 1 / 2, 1 :: real] = ny index_grid \<and>
   sorted_wrt (<) [0, 1 / 2, 1 :: real] \<and> hd [0, 1 / 2, 1 :: real] = 0 \<and>
   last [0, 1 / 2, 1 :: real] = 1"
proof -
  have n: "1 < ny index_grid"
    by (simp add: index_grid_def)
  from progress_fractions [OF n index_grid_run] n index_grid_run show ?thesis
    by blast
qed

text \<open>
  Claim C10: the maps that \<^verbatim>\<open>make_maps\<close> returns do not depend on progress reporting.
  Two runs on the same grid, field and tracer that both return, with any two settings of
  \<open>quiet\<close>, any two reporters and any reporter states, return the same maps. A run
  whose reporter never raises, on a grid with \<open>ny \<noteq> 1\<close>, ends exactly as the quiet
  run does, with the same maps or the same exception.
\<close>

theorem progress_noninterference:
  "(fst (make_maps FT upd1 g B q1 s1) = Inr m1 \<and> fst (make_maps FT upd2 g B q2 s2) = Inr m2
      \<longrightarrow> m1 = m2) \<and>
   (ny g \<noteq> 1 \<and> (\<forall>x s. \<exists>s'. upd1 x s = Inr s')
      \<longrightarrow> fst (make_maps FT upd1 g B q1 s1) = fst (make_maps FT upd2 g B True s2))"
proof (intro conjI impI)
  assume "fst (make_maps FT upd1 g B q1 s1) = Inr m1 \<and> fst (make_maps FT upd2 g B q2 s2) = Inr m2"
  then show "m1 = m2"
    by (auto dest!: make_maps_returns)
next
  assume a: "ny g \<noteq> 1 \<and> (\<forall>x s. \<exists>s'. upd1 x s = Inr s')"
  then have "\<forall>j\<in>set [0..<ny g]. \<forall>s. \<exists>s'. report_progress g q1 upd1 j s = Inr s'"
    by (auto intro: report_progress_many_planes)
  then show "fst (make_maps FT upd1 g B q1 s1) = fst (make_maps FT upd2 g B True s2)"
    by (simp add: make_maps_reporting make_maps_quiet)
qed

theorem progress_noninterference_witness:
  "(fst (make_maps still_tracer record_progress index_grid zero_B False []) = Inr index_maps \<and>
    fst (make_maps still_tracer failing_progress index_grid zero_B True ()) = Inr index_maps) \<and>
   (ny index_grid \<noteq> 1 \<and> (\<forall>x s. \<exists>s'. record_progress x s = Inr s')) \<and>
   fst (make_maps still_tracer record_progress index_grid zero_B False []) =
   fst (make_maps still_tracer failing_progress index_grid zero_B True ())"
proof -
  have runs:
    "fst (make_maps still_tracer record_progress index_grid zero_B False []) = Inr index_maps \<and>
     fst (make_maps still_tracer failing_progress index_grid zero_B True ()) = Inr index_maps"
    by (simp add: index_grid_run index_grid_quiet_run)
  have hyp: "ny index_grid \<noteq> 1 \<and> (\<forall>x s. \<exists>s'. record_progress x s = Inr s')"
    by (simp add: index_grid_def record_progress_returns)
  from progress_noninterference
    [of still_tracer record_progress index_grid zero_B False "[]" index_maps
        failing_progress True "()" index_maps]
  have "fst (make_maps still_tracer record_progress index_grid zero_B False []) =
        fst (make_maps still_tracer failing_progress index_grid zero_B True ())"
    using hyp by blast
  with runs hyp show ?thesis by blast
qed

subsection \<open>Maps in a zero field\<close>

lemma concat_rows_nth:
  "(\<forall>r\<in>set rows. length r = m) \<Longrightarrow> i < length rows \<Longrightarrow>
   take m (drop (i * m) (concat rows)) = rows ! i"
proof (induction rows arbitrary: i)
  case Nil
  then show ?case by simp
next
  case (Cons r rows)
  show ?case
  proof (cases i)
    case 0
    then show ?thesis using Cons.prems by simp
  next
    case (Suc i')
    then show ?thesis using Cons.prems Cons.IH [of i'] by simp
  qed
qed

lemma length_concat_rows:
  "(\<forall>r\<in>set rows. length r = m) \<Longrightarrow> length (concat rows) = length rows * m"
  by (induction rows) simp_all

lemma reshape2_concat:
  assumes "\<forall>r\<in>set rows. length r = m"
  shows "reshape2 (length rows) m (concat rows) = Inr rows"
proof -
  have "map (\<lambda>i. take m (drop (i * m) (concat rows))) [0..<length rows] =
        map (\<lambda>i. rows ! i) [0..<length rows]"
    using assms by (intro map_cong refl) (simp add: concat_rows_nth)
  then show ?thesis
    using assms by (simp add: reshape2_def length_concat_rows map_nth)
qed

lemma getitem_second: "getitem [a, b] (Suc 0) = Inr b"
  by (simp add: getitem_def)

lemma zip_meshgrid:
  "zip (concat (map (\<lambda>x. map (\<lambda>z. x) zs) xs)) (concat (map (\<lambda>x. zs) xs)) =
   concat (map (\<lambda>x. map (\<lambda>z. (x, z)) zs) xs)"
  by (induction xs) (simp_all add: zip_map1 zip_same_conv_map)

lemma trace_plane_zero_field:
  assumes "well_shaped g" "is_zero_field B" "holds_zero_field_lines FT" "j < ny g"
  shows "trace_plane FT g B (flatten (x2d_of g)) (flatten (z2d_of g)) j dy =
         Inr (x_plane g, z_plane g)"
proof -
  let ?rows = "map (\<lambda>x. map (\<lambda>z. (x, z)) (zarray g)) (xarray g)"
  have y: "getitem (yarray g) j = Inr (yarray g ! j)"
    using assms(1,4) by (simp add: getitem_def well_shaped_def)
  have len: "length (flatten (x2d_of g)) = length (flatten (z2d_of g))"
    by (simp add: flatten_def x2d_of_def z2d_of_def meshgrid_ij_def length_concat_rows
        [where m = "length (zarray g)"])
  have "FT B (flatten (x2d_of g)) (flatten (z2d_of g)) [yarray g ! j, dy] =
        Inr (map (\<lambda>y. zip (flatten (x2d_of g)) (flatten (z2d_of g))) [yarray g ! j, dy])"
    using assms(2,3) len unfolding holds_zero_field_lines_def by blast
  then have ft: "FT B (flatten (x2d_of g)) (flatten (z2d_of g)) [yarray g ! j, dy] =
            Inr [concat ?rows, concat ?rows]"
    by (simp add: flatten_def x2d_of_def z2d_of_def meshgrid_ij_def zip_meshgrid)
  have rs: "reshape2 (nx g) (nz g) (concat ?rows) = Inr ?rows"
    using assms(1) reshape2_concat [of ?rows "nz g"] by (auto simp: well_shaped_def)
  show ?thesis
    by (simp add: trace_plane_def y ft getitem_second rs comp_def x_plane_def z_plane_def)
qed

lemma length_set_plane:
  "length P = length a \<Longrightarrow> length (set_plane a j P) = length a"
  by (simp add: set_plane_def)

lemma nth_set_plane:
  "length P = length a \<Longrightarrow> i < length a \<Longrightarrow> set_plane a j P ! i = (a ! i)[j := P ! i]"
  by (simp add: set_plane_def)

lemma fold_set_plane_length:
  "length P = length a \<Longrightarrow> length (fold (\<lambda>j a. set_plane a j P) js a) = length a"
  by (induction js arbitrary: a) (simp_all add: length_set_plane)

lemma fold_set_plane_nth:
  "length P = length a \<Longrightarrow> i < length a \<Longrightarrow>
   fold (\<lambda>j a. set_plane a j P) js a ! i = fold (\<lambda>j r. r[j := P ! i]) js (a ! i)"
  by (induction js arbitrary: a) (simp_all add: length_set_plane nth_set_plane)

lemma fold_update_length: "length (fold (\<lambda>j r. r[j := p]) js r) = length r"
  by (induction js arbitrary: r) simp_all

lemma fold_update_nth:
  "j < length r \<Longrightarrow> fold (\<lambda>j r. r[j := p]) js r ! j = (if j \<in> set js then p else r ! j)"
  by (induction js arbitrary: r) (auto simp: nth_list_update)

lemma fold_planes_entry:
  assumes "length P = n1" "i < n1" "j < n2"
  shows "fold (\<lambda>j a. set_plane a j P) [0..<n2] (zeros3 n1 n2 n3) ! i ! j = P ! i"
  using assms by (simp add: fold_set_plane_nth zeros3_def fold_update_nth)

lemma fold_planes_shape:
  assumes "length P = n1"
  shows "length (fold (\<lambda>j a. set_plane a j P) [0..<n2] (zeros3 n1 n2 n3)) = n1"
    and "i < n1 \<Longrightarrow> length (fold (\<lambda>j a. set_plane a j P) [0..<n2] (zeros3 n1 n2 n3) ! i) = n2"
  using assms by (simp_all add: fold_set_plane_length fold_set_plane_nth zeros3_def fold_update_length)

lemma fold_four:
  "fold (\<lambda>j (a, b, c, d). (fa j a, fb j b, fc j c, fd j d)) js (a, b, c, d) =
   (fold fa js a, fold fb js b, fold fc js c, fold fd js d)"
  by (induction js arbitrary: a b c d) simp_all

lemma trace_step_zero_field:
  assumes "well_shaped g" "is_zero_field B" "holds_zero_field_lines FT" "j < ny g"
  shows "trace_step FT g B (x2d_of g) (z2d_of g) j arrs =
         Inr ((\<lambda>(a, b, c, d).
           (set_plane a j (x_plane g), set_plane b j (z_plane g),
            set_plane c j (x_plane g), set_plane d j (z_plane g))) arrs)"
  by (simp add: trace_step_def trace_plane_zero_field [OF assms] split: prod.splits)

lemma tracing_zero_field:
  assumes "well_shaped g" "is_zero_field B" "holds_zero_field_lines FT"
  shows "tracing FT g B =
         Inr (fold (\<lambda>j a. set_plane a j (x_plane g)) [0..<ny g] (zeros3 (nx g) (ny g) (nz g)),
              fold (\<lambda>j a. set_plane a j (z_plane g)) [0..<ny g] (zeros3 (nx g) (ny g) (nz g)),
              fold (\<lambda>j a. set_plane a j (x_plane g)) [0..<ny g] (zeros3 (nx g) (ny g) (nz g)),
              fold (\<lambda>j a. set_plane a j (z_plane g)) [0..<ny g] (zeros3 (nx g) (ny g) (nz g)))"
proof -
  let ?f = "\<lambda>j (a, b, c, d).
           (set_plane a j (x_plane g), set_plane b j (z_plane g),
            set_plane c j (x_plane g), set_plane d j (z_plane g))"
  let ?z = "zeros3 (nx g) (ny g) (nz g)"
  have "tracing FT g B = Inr (fold ?f [0..<ny g] (?z, ?z, ?z, ?z))"
    unfolding tracing_def
    by (rule for_loop_pure) (simp add: trace_step_zero_field [OF assms])
  then show ?thesis by (simp only: fold_four)
qed

lemma entry_planes:
  assumes "length P = n1" "i < n1" "j < n2" "k < length (P ! i)"
    and "m key = Some (fold (\<lambda>j a. set_plane a j P) [0..<n2] (zeros3 n1 n2 n3))"
  shows "entry m key i j k = Some (P ! i ! k)"
  using assms by (simp add: entry_def fold_planes_shape fold_planes_entry)

lemma maps_dict_lookup:
  "maps_dict (a, b, c, d) ''forward_xt_prime'' = Some a"
  "maps_dict (a, b, c, d) ''forward_zt_prime'' = Some b"
  "maps_dict (a, b, c, d) ''backward_xt_prime'' = Some c"
  "maps_dict (a, b, c, d) ''backward_zt_prime'' = Some d"
  by (simp_all add: maps_dict_def)

text \<open>
  What the loop stores in a zero field, over the reals: on a grid whose coordinate arrays
  have the lengths nx, ny, nz and whose steps are not zero, with a tracer that leaves the
  points of such a field in place, every run that returns has stored in both x maps the
  value \<open>xarray[i] / delta_x\<close> at \<open>(i, j, k)\<close> and in both z maps the value
  \<open>zarray[k] / delta_z\<close>. The first coordinate of the grid is not subtracted.
\<close>

lemma zero_field_entries:
  assumes "well_shaped g" "is_zero_field B" "holds_zero_field_lines FT"
    and "delta_x g \<noteq> 0" "delta_z g \<noteq> 0"
    and "i < nx g" "j < ny g" "k < nz g"
    and run: "fst (make_maps FT upd g B quiet s) = Inr m"
  shows "entry m ''forward_xt_prime'' i j k = Some (xarray g ! i / delta_x g) \<and>
         entry m ''forward_zt_prime'' i j k = Some (zarray g ! k / delta_z g) \<and>
         entry m ''backward_xt_prime'' i j k = Some (xarray g ! i / delta_x g) \<and>
         entry m ''backward_zt_prime'' i j k = Some (zarray g ! k / delta_z g)"
proof -
  have lx: "length (x_plane g) = nx g" and lz: "length (z_plane g) = nx g"
    using assms(1) by (simp_all add: x_plane_def z_plane_def well_shaped_def)
  have kx: "k < length (x_plane g ! i)" and kz: "k < length (z_plane g ! i)"
    using assms(1,6,8) by (simp_all add: x_plane_def z_plane_def well_shaped_def)
  have px: "x_plane g ! i ! k = xarray g ! i / delta_x g"
    and pz: "z_plane g ! i ! k = zarray g ! k / delta_z g"
    using assms(1,6,8) by (simp_all add: x_plane_def z_plane_def well_shaped_def)
  from make_maps_returns [OF run] obtain arrs where
    "tracing FT g B = Inr arrs" "m = maps_dict arrs" by blast
  then have m: "m = maps_dict
     (fold (\<lambda>j a. set_plane a j (x_plane g)) [0..<ny g] (zeros3 (nx g) (ny g) (nz g)),
      fold (\<lambda>j a. set_plane a j (z_plane g)) [0..<ny g] (zeros3 (nx g) (ny g) (nz g)),
      fold (\<lambda>j a. set_plane a j (x_plane g)) [0..<ny g] (zeros3 (nx g) (ny g) (nz g)),
      fold (\<lambda>j a. set_plane a j (z_plane g)) [0..<ny g] (zeros3 (nx g) (ny g) (nz g)))"
    by (simp add: tracing_zero_field [OF assms(1-3)])
  have fx: "entry m ''forward_xt_prime'' i j k = Some (xarray g ! i / delta_x g)"
    using entry_planes [OF lx assms(6,7) kx, of m "''forward_xt_prime''" "nz g"]
    by (simp add: m maps_dict_lookup px)
  have fz: "entry m ''forward_zt_prime'' i j k = Some (zarray g ! k / delta_z g)"
    using entry_planes [OF lz assms(6,7) kz, of m "''forward_zt_prime''" "nz g"]
    by (simp add: m maps_dict_lookup pz)
  have bx: "entry m ''backward_xt_prime'' i j k = Some (xarray g ! i / delta_x g)"
    using entry_planes [OF lx assms(6,7) kx, of m "''backward_xt_prime''" "nz g"]
    by (simp add: m maps_dict_lookup px)
  have bz: "entry m ''backward_zt_prime'' i j k = Some (zarray g ! k / delta_z g)"
    using entry_planes [OF lz assms(6,7) kz, of m "''backward_zt_prime''" "nz g"]
    by (simp add: m maps_dict_lookup pz)
  from fx fz bx bz show ?thesis by blast
qed

subsection \<open>Failures of the tracer\<close>

lemma for_loop_first_failure:
  assumes "\<forall>j'\<in>set js1. \<forall>st. \<exists>st'. body j' st = Inr st'" "\<forall>st. body j st = Inl e"
  shows "for_loop (js1 @ j # js2) body st = Inl e"
  using assms
proof (induction js1 arbitrary: st)
  case Nil
  then show ?case by simp
next
  case (Cons a js1)
  from Cons.prems(1) obtain st' where "body a st = Inr st'"
    by (meson list.set_intros(1))
  with Cons show ?case by simp
qed

lemma trace_plane_tracer_fails:
  "j < length (yarray g) \<Longrightarrow> FT B xc zc [yarray g ! j, dy] = Inl e \<Longrightarrow>
   trace_plane FT g B xc zc j dy = Inl e"
  by (simp add: trace_plane_def getitem_def)

lemma trace_step_runs:
  assumes "trace_plane FT g B (flatten x2d) (flatten z2d) j (delta_y g) = Inr r1"
    and "trace_plane FT g B (flatten x2d) (flatten z2d) j (- delta_y g) = Inr r2"
  shows "\<exists>arrs'. trace_step FT g B x2d z2d j arrs = Inr arrs'"
  using assms by (simp add: trace_step_def Let_def split: prod.splits)

lemma trace_step_fails:
  assumes "trace_plane FT g B (flatten x2d) (flatten z2d) j (delta_y g) = Inl e \<or>
           (\<exists>r. trace_plane FT g B (flatten x2d) (flatten z2d) j (delta_y g) = Inr r) \<and>
           trace_plane FT g B (flatten x2d) (flatten z2d) j (- delta_y g) = Inl e"
  shows "trace_step FT g B x2d z2d j arrs = Inl e"
  using assms by (auto simp: trace_step_def Let_def split: prod.splits)

lemma upt_split: "j < n \<Longrightarrow> [0..<n] = [0..<j] @ j # [Suc j..<n]"
  by (metis le_add1 less_imp_add_positive plus_nat.add_0 upt_add_eq_append upt_conv_Cons)

lemma tracing_first_failure:
  assumes "j < ny g" "j < length (yarray g)"
    and "\<forall>j'<j. (\<exists>r. trace_plane FT g B (flatten (x2d_of g)) (flatten (z2d_of g)) j' (delta_y g) = Inr r) \<and>
                (\<exists>r. trace_plane FT g B (flatten (x2d_of g)) (flatten (z2d_of g)) j' (- delta_y g) = Inr r)"
    and "FT B (flatten (x2d_of g)) (flatten (z2d_of g)) [yarray g ! j, delta_y g] = Inl e \<or>
         (\<exists>r. trace_plane FT g B (flatten (x2d_of g)) (flatten (z2d_of g)) j (delta_y g) = Inr r) \<and>
         FT B (flatten (x2d_of g)) (flatten (z2d_of g)) [yarray g ! j, - delta_y g] = Inl e"
  shows "tracing FT g B = Inl e"
proof -
  have before: "\<forall>j'\<in>set [0..<j]. \<forall>st. \<exists>st'. trace_step FT g B (x2d_of g) (z2d_of g) j' st = Inr st'"
  proof (intro ballI allI)
    fix j' st
    assume "j' \<in> set [0..<j]"
    then have "j' < j" by simp
    with assms(3) obtain r1 r2 where
      "trace_plane FT g B (flatten (x2d_of g)) (flatten (z2d_of g)) j' (delta_y g) = Inr r1"
      "trace_plane FT g B (flatten (x2d_of g)) (flatten (z2d_of g)) j' (- delta_y g) = Inr r2"
      by blast
    then show "\<exists>st'. trace_step FT g B (x2d_of g) (z2d_of g) j' st = Inr st'"
      by (rule trace_step_runs)
  qed
  have at: "\<forall>st. trace_step FT g B (x2d_of g) (z2d_of g) j st = Inl e"
    using assms(2,4) by (auto intro!: trace_step_fails dest: trace_plane_tracer_fails)
  show ?thesis
    unfolding tracing_def upt_split [OF assms(1)]
    by (rule for_loop_first_failure [OF before at])
qed

lemma tracing_some_failure:
  assumes "j < ny g"
    and "FT B (flatten (x2d_of g)) (flatten (z2d_of g)) [yarray g ! j, delta_y g] = Inl e \<or>
         FT B (flatten (x2d_of g)) (flatten (z2d_of g)) [yarray g ! j, - delta_y g] = Inl e"
  shows "\<exists>e'. tracing FT g B = Inl e'"
proof (cases "tracing FT g B")
  case (Inl e')
  then show ?thesis by blast
next
  case (Inr arrs)
  from for_loop_returns_body [OF Inr [unfolded tracing_def], of j] assms(1)
  obtain st1 st2 where "trace_step FT g B (x2d_of g) (z2d_of g) j st1 = Inr st2"
    by auto
  from trace_step_returns [OF this] have
    "(\<exists>res. FT B (flatten (x2d_of g)) (flatten (z2d_of g)) [yarray g ! j, delta_y g] = Inr res) \<and>
     (\<exists>res. FT B (flatten (x2d_of g)) (flatten (z2d_of g)) [yarray g ! j, - delta_y g] = Inr res)"
    by (auto dest: trace_plane_returns)
  with assms(2) show ?thesis by auto
qed

lemma report_progress_quiet: "report_progress g True upd j s = Inr s"
  by (simp add: report_progress_def)

text \<open>
  Claim C3: when the tracer raises on the forward or the backward call of some plane
  \<open>j < ny\<close>, \<^verbatim>\<open>make_maps\<close> ends with an exception and returns no maps, whatever the
  progress settings are; a \<^verbatim>\<open>write_maps\<close> that would take the maps of this call is
  never run, so the file system stays as it is. Where nothing raises before it (progress
  reporting does not fail and the planes before \<open>j\<close> are traced), the exception of
  the run is the one the tracer raised.
\<close>

theorem tracer_failure_propagates:
  assumes "j < ny g"
    and "FT B (flatten (x2d_of g)) (flatten (z2d_of g)) [yarray g ! j, delta_y g] = Inl e \<or>
         FT B (flatten (x2d_of g)) (flatten (z2d_of g)) [yarray g ! j, - delta_y g] = Inl e"
  shows "(\<exists>e'. fst (make_maps FT upd g B quiet s) = Inl e') \<and>
         (case fst (make_maps FT upd g B quiet s) of
            Inl e' \<Rightarrow> fs
          | Inr m \<Rightarrow> snd (write_maps transform3D g B m gridfile legacy fs)) = fs \<and>
         ((quiet \<or> ny g \<noteq> 1 \<and> (\<forall>x s. \<exists>s'. upd x s = Inr s')) \<and>
          j < length (yarray g) \<and>
          (\<forall>j'<j. (\<exists>r. trace_plane FT g B (flatten (x2d_of g)) (flatten (z2d_of g)) j' (delta_y g) = Inr r) \<and>
                   (\<exists>r. trace_plane FT g B (flatten (x2d_of g)) (flatten (z2d_of g)) j' (- delta_y g) = Inr r)) \<and>
          (FT B (flatten (x2d_of g)) (flatten (z2d_of g)) [yarray g ! j, delta_y g] = Inl e \<or>
           (\<exists>r. trace_plane FT g B (flatten (x2d_of g)) (flatten (z2d_of g)) j (delta_y g) = Inr r) \<and>
           FT B (flatten (x2d_of g)) (flatten (z2d_of g)) [yarray g ! j, - delta_y g] = Inl e)
          \<longrightarrow> fst (make_maps FT upd g B quiet s) = Inl e)"
proof -
  have no_maps: "\<exists>e'. fst (make_maps FT upd g B quiet s) = Inl e'"
  proof (cases "fst (make_maps FT upd g B quiet s)")
    case (Inl e')
    then show ?thesis by blast
  next
    case (Inr m)
    from make_maps_returns [OF Inr] tracing_some_failure [of j g FT B e, OF assms] show ?thesis
      by auto
  qed
  then have no_write: "(case fst (make_maps FT upd g B quiet s) of
            Inl e' \<Rightarrow> fs
          | Inr m \<Rightarrow> snd (write_maps transform3D g B m gridfile legacy fs)) = fs"
    by auto
  have exact: "fst (make_maps FT upd g B quiet s) = Inl e"
    if rep: "quiet \<or> ny g \<noteq> 1 \<and> (\<forall>x s. \<exists>s'. upd x s = Inr s')"
      and ly: "j < length (yarray g)"
      and before: "\<forall>j'<j. (\<exists>r. trace_plane FT g B (flatten (x2d_of g)) (flatten (z2d_of g)) j' (delta_y g) = Inr r) \<and>
                   (\<exists>r. trace_plane FT g B (flatten (x2d_of g)) (flatten (z2d_of g)) j' (- delta_y g) = Inr r)"
      and at: "FT B (flatten (x2d_of g)) (flatten (z2d_of g)) [yarray g ! j, delta_y g] = Inl e \<or>
           (\<exists>r. trace_plane FT g B (flatten (x2d_of g)) (flatten (z2d_of g)) j (delta_y g) = Inr r) \<and>
           FT B (flatten (x2d_of g)) (flatten (z2d_of g)) [yarray g ! j, - delta_y g] = Inl e"
  proof -
    have "\<forall>j\<in>set [0..<ny g]. \<forall>s. \<exists>s'. report_progress g quiet upd j s = Inr s'"
      using rep by (auto simp: report_progress_quiet intro: report_progress_many_planes)
    from make_maps_reporting [OF this] tracing_first_failure [of j g FT B e, OF assms(1) ly before at]
    show ?thesis by simp
  qed
  from no_maps no_write exact show ?thesis by blast
qed

subsection \<open>Zero-field runs and a failing run on the sample grids\<close>

lemma zero_B_is_zero: "is_zero_field zero_B"
  by (simp add: is_zero_field_def zero_B_def)

lemma still_tracer_holds: "holds_zero_field_lines still_tracer"
  by (simp add: holds_zero_field_lines_def still_tracer_def)

lemma index_grid_shape: "well_shaped index_grid"
  by (simp add: well_shaped_def index_grid_def)

lemma centred_grid_shape:
  "well_shaped centred_grid \<and> delta_x centred_grid \<noteq> 0 \<and> delta_z centred_grid \<noteq> 0"
  by (simp add: well_shaped_def centred_grid_def)

text \<open>
  Claim C1, evaluated on the code: on a grid with unit steps whose x coordinates are the
  cell centres 1/2 and 3/2, in the zero field, a run with the default progress reporting
  returns maps whose x entries are 1/2 for the points of index 0 and 3/2 for the points
  of index 1, forward and backward: the coordinate divided by the step, not the index.
  The z coordinates of this grid start at 0, and there the z entries are the indices.
\<close>

theorem offset_grid_maps:
  "make_maps still_tracer record_progress centred_grid zero_B False [] =
     (Inr centred_maps, [0, 1]) \<and>
   entry centred_maps ''forward_xt_prime'' 0 0 0 = Some (1 / 2) \<and>
   entry centred_maps ''backward_xt_prime'' 0 0 0 = Some (1 / 2) \<and>
   entry centred_maps ''forward_xt_prime'' 1 1 1 = Some (3 / 2) \<and>
   entry centred_maps ''backward_xt_prime'' 1 1 1 = Some (3 / 2) \<and>
   entry centred_maps ''forward_xt_prime'' 0 0 0 \<noteq> Some (real 0) \<and>
   entry centred_maps ''forward_xt_prime'' 1 1 1 \<noteq> Some (real 1) \<and>
   entry centred_maps ''forward_zt_prime'' 1 1 1 = Some (real 1)"
proof -
  have run: "make_maps still_tracer record_progress centred_grid zero_B False [] =
             (Inr centred_maps, [0, 1])"
    by (simp add: run_simps centred_grid_def centred_maps_def)
  have entries:
    "entry centred_maps ''forward_xt_prime'' 0 0 0 = Some (1 / 2)"
    "entry centred_maps ''backward_xt_prime'' 0 0 0 = Some (1 / 2)"
    "entry centred_maps ''forward_xt_prime'' 1 1 1 = Some (3 / 2)"
    "entry centred_maps ''backward_xt_prime'' 1 1 1 = Some (3 / 2)"
    "entry centred_maps ''forward_zt_prime'' 1 1 1 = Some (real 1)"
    by (simp_all add: centred_maps_def maps_dict_def entry_def)
  from run entries show ?thesis by simp
qed

lemmas break_simps =
  make_maps_def meshgrid_ij_def zeros3_def zeros2_def flatten_def trace_step_def trace_plane_def
  getitem_def reshape2_def set_plane_def report_progress_def py_float_div_def
  breaking_tracer_def record_progress_def zero_B_def x2d_of_def z2d_of_def
  upt_rec [of _ "numeral _"] upt_rec [of _ "Suc _"] eval_nat_numeral Let_def

theorem tracer_failure_propagates_witness:
  "2 < ny index_grid \<and> 2 < length (yarray index_grid) \<and>
   breaking_tracer 2 zero_B (flatten (x2d_of index_grid)) (flatten (z2d_of index_grid))
     [yarray index_grid ! 2, delta_y index_grid] = Inl (Raised ''TracingError'') \<and>
   ny index_grid \<noteq> 1 \<and> (\<forall>x s. \<exists>s'. record_progress x s = Inr s') \<and>
   trace_plane (breaking_tracer 2) index_grid zero_B (flatten (x2d_of index_grid))
     (flatten (z2d_of index_grid)) 0 (delta_y index_grid) = Inr ([[0, 0], [1, 1]], [[0, 1], [0, 1]]) \<and>
   trace_plane (breaking_tracer 2) index_grid zero_B (flatten (x2d_of index_grid))
     (flatten (z2d_of index_grid)) 0 (- delta_y index_grid) = Inr ([[0, 0], [1, 1]], [[0, 1], [0, 1]]) \<and>
   trace_plane (breaking_tracer 2) index_grid zero_B (flatten (x2d_of index_grid))
     (flatten (z2d_of index_grid)) 1 (delta_y index_grid) = Inr ([[0, 0], [1, 1]], [[0, 1], [0, 1]]) \<and>
   trace_plane (breaking_tracer 2) index_grid zero_B (flatten (x2d_of index_grid))
     (flatten (z2d_of index_grid)) 1 (- delta_y index_grid) = Inr ([[0, 0], [1, 1]], [[0, 1], [0, 1]]) \<and>
   fst (make_maps (breaking_tracer 2) record_progress index_grid zero_B False []) =
     Inl (Raised ''TracingError'') \<and>
   (case fst (make_maps (breaking_tracer 2) record_progress index_grid zero_B False []) of
      Inl e' \<Rightarrow> Map.empty
    | Inr m \<Rightarrow> snd (write_maps (\<lambda>a. a) index_grid zero_B m ''fci.grid.nc'' False Map.empty)) =
   Map.empty"
proof -
  let ?xc = "flatten (x2d_of index_grid)" and ?zc = "flatten (z2d_of index_grid)"
  let ?P = "([[0, 0], [1, 1]], [[0, 1], [0, 1]]) :: array2 \<times> array2"
  have n: "2 < ny index_grid" and l: "2 < length (yarray index_grid)"
    by (simp_all add: index_grid_def)
  have fails: "breaking_tracer 2 zero_B ?xc ?zc [yarray index_grid ! 2, delta_y index_grid] =
      Inl (Raised ''TracingError'')"
    by (simp add: breaking_tracer_def index_grid_def)
  have rep: "ny index_grid \<noteq> 1 \<and> (\<forall>x s. \<exists>s'. record_progress x s = Inr s')"
    by (simp add: index_grid_def record_progress_returns)
  have p0: "trace_plane (breaking_tracer 2) index_grid zero_B ?xc ?zc 0 (delta_y index_grid) = Inr ?P"
    "trace_plane (breaking_tracer 2) index_grid zero_B ?xc ?zc 0 (- delta_y index_grid) = Inr ?P"
    by (simp_all add: break_simps index_grid_def)
  have p1: "trace_plane (breaking_tracer 2) index_grid zero_B ?xc ?zc 1 (delta_y index_grid) = Inr ?P"
    "trace_plane (breaking_tracer 2) index_grid zero_B ?xc ?zc 1 (- delta_y index_grid) = Inr ?P"
    by (simp_all add: break_simps index_grid_def)
  have before: "\<forall>j'<2.
      (\<exists>r. trace_plane (breaking_tracer 2) index_grid zero_B ?xc ?zc j' (delta_y index_grid) = Inr r) \<and>
      (\<exists>r. trace_plane (breaking_tracer 2) index_grid zero_B ?xc ?zc j' (- delta_y index_grid) = Inr r)"
  proof (intro allI impI)
    fix j' :: nat
    assume "j' < 2"
    then have "j' = 0 \<or> j' = 1" by auto
    then show "(\<exists>r. trace_plane (breaking_tracer 2) index_grid zero_B ?xc ?zc j' (delta_y index_grid) = Inr r) \<and>
      (\<exists>r. trace_plane (breaking_tracer 2) index_grid zero_B ?xc ?zc j' (- delta_y index_grid) = Inr r)"
      using p0 p1 by auto
  qed
  from tracer_failure_propagates
    [of 2 index_grid "breaking_tracer 2" zero_B "Raised ''TracingError''" record_progress False "[]"
        Map.empty "\<lambda>a. a" "''fci.grid.nc''" False,
     OF n disjI1, OF fails]
    rep l before fails
  have "fst (make_maps (breaking_tracer 2) record_progress index_grid zero_B False []) =
          Inl (Raised ''TracingError'') \<and>
        (case fst (make_maps (breaking_tracer 2) record_progress index_grid zero_B False []) of
           Inl e' \<Rightarrow> Map.empty
         | Inr m \<Rightarrow> snd (write_maps (\<lambda>a. a) index_grid zero_B m ''fci.grid.nc'' False Map.empty)) =
        Map.empty"
    by blast
  with n l fails rep p0 p1 show ?thesis by blast
qed

section \<open>Properties of the grid file writer\<close>

lemma fold_update_prefix:
  "m \<le> length r \<Longrightarrow>
   fold (\<lambda>k r. r[k := G k (r ! k)]) [0..<m] r = map (\<lambda>k. G k (r ! k)) [0..<m] @ drop m r"
proof (induction m)
  case 0
  then show ?case by simp
next
  case (Suc m)
  then have m: "m < length r" by simp
  have "(map (\<lambda>k. G k (r ! k)) [0..<m] @ drop m r)[m := v] =
        map (\<lambda>k. G k (r ! k)) [0..<m] @ v # drop (Suc m) r" for v
    using m by (simp add: list_update_append Cons_nth_drop_Suc [symmetric])
  moreover have "(map (\<lambda>k. G k (r ! k)) [0..<m] @ drop m r) ! m = r ! m"
    using m by (simp add: nth_append)
  ultimately show ?case
    using Suc.IH m by simp
qed

lemma fold_update_all:
  "length r = n \<Longrightarrow> fold (\<lambda>k r. r[k := G k (r ! k)]) [0..<n] r = map (\<lambda>k. G k (r ! k)) [0..<n]"
  using fold_update_prefix [of n r G] by simp

lemma fold_setitem3:
  "fold (\<lambda>k a. setitem3 a i j k (h k)) ks a =
   a[i := (a ! i)[j := fold (\<lambda>k r. r[k := h k]) ks (a ! i ! j)]]"
proof (induction ks arbitrary: a)
  case Nil
  then show ?case by simp
next
  case (Cons k ks)
  let ?a' = "setitem3 a i j k (h k)"
  have step: "fold (\<lambda>k a. setitem3 a i j k (h k)) (k # ks) a =
              ?a'[i := (?a' ! i)[j := fold (\<lambda>k r. r[k := h k]) ks (?a' ! i ! j)]]"
    using Cons.IH [of ?a'] by simp
  show ?case
  proof (cases "i < length a \<and> j < length (a ! i)")
    case True
    then have "?a' ! i = (a ! i)[j := (a ! i ! j)[k := h k]]"
      and "?a' ! i ! j = (a ! i ! j)[k := h k]"
      by (simp_all add: setitem3_def)
    then show ?thesis
      unfolding step by (simp add: setitem3_def)
  next
    case False
    then have "?a' = a"
      by (auto simp: setitem3_def not_less list_update_beyond)
    moreover from False have "a[i := (a ! i)[j := c]] = a" for c
      by (auto simp: not_less list_update_beyond)
    ultimately show ?thesis
      unfolding step by simp
  qed
qed

lemma fold_row_update:
  "fold (\<lambda>j a. a[i := (a ! i)[j := G j (a ! i ! j)]]) js a =
   a[i := fold (\<lambda>j r. r[j := G j (r ! j)]) js (a ! i)]"
proof (induction js arbitrary: a)
  case Nil
  then show ?case by simp
next
  case (Cons j js)
  let ?a' = "a[i := (a ! i)[j := G j (a ! i ! j)]]"
  have step: "fold (\<lambda>j a. a[i := (a ! i)[j := G j (a ! i ! j)]]) (j # js) a =
              ?a'[i := fold (\<lambda>j r. r[j := G j (r ! j)]) js (?a' ! i)]"
    using Cons.IH [of ?a'] by simp
  show ?case
  proof (cases "i < length a")
    case True
    then show ?thesis unfolding step by simp
  next
    case False
    then show ?thesis unfolding step by (simp add: not_less list_update_beyond)
  qed
qed

lemma filled_table:
  "fold (\<lambda>i. fold (\<lambda>j. fold (\<lambda>k a. setitem3 a i j k (h i j k)) [0..<n3]) [0..<n2]) [0..<n1]
     (zeros3 n1 n2 n3) = table3 n1 n2 n3 h"
proof -
  let ?cell = "\<lambda>i j c. fold (\<lambda>k r. r[k := h i j k]) [0..<n3] c"
  let ?row = "\<lambda>i r. fold (\<lambda>j r. r[j := ?cell i j (r ! j)]) [0..<n2] r"
  have inner: "fold (\<lambda>k a. setitem3 a i j k (h i j k)) [0..<n3] =
               (\<lambda>a. a[i := (a ! i)[j := ?cell i j (a ! i ! j)]])" for i j
    by (rule ext) (rule fold_setitem3)
  have middle: "fold (\<lambda>j a. a[i := (a ! i)[j := ?cell i j (a ! i ! j)]]) [0..<n2] =
                (\<lambda>a. a[i := ?row i (a ! i)])" for i
    by (rule ext) (rule fold_row_update)
  have cell: "?cell i j (replicate n3 0) = map (h i j) [0..<n3]" for i j
    using fold_update_all [of "replicate n3 0" n3 "\<lambda>k v. h i j k"] by simp
  have row: "?row i (replicate n2 (replicate n3 0)) = map (\<lambda>j. map (h i j) [0..<n3]) [0..<n2]" for i
    using fold_update_all [of "replicate n2 (replicate n3 0)" n2 "\<lambda>j c. ?cell i j c"]
    by (simp add: cell)
  have "fold (\<lambda>i a. a[i := ?row i (a ! i)]) [0..<n1] (zeros3 n1 n2 n3) =
        map (\<lambda>i. ?row i (zeros3 n1 n2 n3 ! i)) [0..<n1]"
    using fold_update_all [of "zeros3 n1 n2 n3" n1 "\<lambda>i r. ?row i r"]
    by (simp add: zeros3_def)
  also have "\<dots> = table3 n1 n2 n3 h"
    unfolding table3_def by (rule map_cong) (simp_all add: zeros3_def row)
  finally show ?thesis
    by (simp only: inner middle)
qed

lemma fold_three:
  "fold (\<lambda>k (a, b, c). (fa k a, fb k b, fc k c)) ks =
   (\<lambda>(a, b, c). (fold fa ks a, fold fb ks b, fold fc ks c))"
proof (rule ext)
  fix st :: "'a \<times> 'b \<times> 'c"
  obtain a b c where st: "st = (a, b, c)" by (cases st)
  show "fold (\<lambda>k (a, b, c). (fa k a, fb k b, fc k c)) ks st =
        (case st of (a, b, c) \<Rightarrow> (fold fa ks a, fold fb ks b, fold fc ks c))"
    unfolding st by (induction ks arbitrary: a b c) simp_all
qed

lemma field_point_in_range:
  assumes "i < length (xarray g)" "j < length (yarray g)" "k < length (zarray g)"
  shows "field_point g B i j k st =
         Inr ((\<lambda>(Bxy, totalbx, totalbz).
                (setitem3 Bxy i j k (field_strength g B i j k),
                 setitem3 totalbx i j k (Bxfunc B (xarray g ! i) (zarray g ! k) (yarray g ! j)),
                 setitem3 totalbz i j k (Bzfunc B (xarray g ! i) (zarray g ! k) (yarray g ! j)))) st)"
  using assms by (simp add: field_point_def getitem_def field_strength_def split: prod.splits)

lemma field_arrays_well_shaped:
  assumes "well_shaped g"
  shows "field_arrays g B =
         Inr (table3 (nx g) (ny g) (nz g) (field_strength g B),
              table3 (nx g) (ny g) (nz g)
                (\<lambda>i j k. Bxfunc B (xarray g ! i) (zarray g ! k) (yarray g ! j)),
              table3 (nx g) (ny g) (nz g)
                (\<lambda>i j k. Bzfunc B (xarray g ! i) (zarray g ! k) (yarray g ! j)))"
proof -
  let ?P = "\<lambda>i j k (Bxy, totalbx, totalbz).
                (setitem3 Bxy i j k (field_strength g B i j k),
                 setitem3 totalbx i j k (Bxfunc B (xarray g ! i) (zarray g ! k) (yarray g ! j)),
                 setitem3 totalbz i j k (Bzfunc B (xarray g ! i) (zarray g ! k) (yarray g ! j)))"
  let ?z = "zeros3 (nx g) (ny g) (nz g)"
  have ks: "for_loop [0..<nz g] (field_point g B i j) st = Inr (fold (?P i j) [0..<nz g] st)"
    if "i < nx g" "j < ny g" for i j st
    using that assms by (intro for_loop_pure) (simp add: field_point_in_range well_shaped_def)
  have js: "for_loop [0..<ny g] (\<lambda>j. for_loop [0..<nz g] (field_point g B i j)) st =
            Inr (fold (\<lambda>j. fold (?P i j) [0..<nz g]) [0..<ny g] st)"
    if "i < nx g" for i st
    using that by (intro for_loop_pure) (simp add: ks)
  have "field_arrays g B =
        Inr (fold (\<lambda>i. fold (\<lambda>j. fold (?P i j) [0..<nz g]) [0..<ny g]) [0..<nx g] (?z, ?z, ?z))"
    unfolding field_arrays_def by (intro for_loop_pure) (simp add: js)
  then show ?thesis
    by (simp only: fold_three split_conv filled_table)
qed

lemma slice_table3:
  "0 < n3 \<Longrightarrow> slice_z0 n3 (table3 n1 n2 n3 h) = Inr (map (\<lambda>i. map (\<lambda>j. h i j 0) [0..<n2]) [0..<n1])"
  by (simp add: slice_z0_def table3_def comp_def upt_rec [of 0 n3])

lemma g_22_constant:
  "map (map (\<lambda>v. v + c)) (zeros2 n1 n2) = replicate n1 (replicate n2 c)"
  by (simp add: zeros2_def)

lemma write_maps_well_shaped:
  assumes "well_shaped g" "Rmaj g \<noteq> 0"
  shows "write_maps T g B m file legacy fs =
         (case write_body T g m legacy
                 (replicate (nx g) (replicate (ny g) (1 / (Rmaj g)\<^sup>2)))
                 (table3 (nx g) (ny g) (nz g) (field_strength g B))
                 (table3 (nx g) (ny g) (nz g)
                    (\<lambda>i j k. Bxfunc B (xarray g ! i) (zarray g ! k) (yarray g ! j)))
                 (table3 (nx g) (ny g) (nz g)
                    (\<lambda>i j k. Bzfunc B (xarray g ! i) (zarray g ! k) (yarray g ! j)))
                 Map.empty of
            (r, f) \<Rightarrow> (r, fs(file \<mapsto> f)))"
  using assms
  by (simp add: write_maps_def py_float_div_def field_arrays_well_shaped g_22_constant)

lemma write_body_ixseps:
  "snd (write_body T g m legacy G Bxy bx bz Map.empty) ''ixseps1'' = Some (IntV (int (nx g) + 1)) \<and>
   snd (write_body T g m legacy G Bxy bx bz Map.empty) ''ixseps2'' = Some (IntV (int (nx g) + 1))"
  by (simp add: write_body_def fwrite_def write_map_def Let_def split: option.splits sum.splits)

lemma write_body_arrays:
  assumes "slice_z0 (nz g) Bxy = Inr s"
  shows "snd (write_body T g m legacy G Bxy bx bz Map.empty) ''g_22'' = Some (Arr2 G) \<and>
         snd (write_body T g m legacy G Bxy bx bz Map.empty) ''Bxy'' = Some (Arr2 s) \<and>
         snd (write_body T g m legacy G Bxy bx bz Map.empty) ''bx'' = Some (Arr3 bx) \<and>
         snd (write_body T g m legacy G Bxy bx bz Map.empty) ''bz'' = Some (Arr3 bz)"
  using assms
  by (simp add: write_body_def fwrite_def write_map_def Let_def split: option.splits)

lemma write_body_maps:
  assumes "slice_z0 (nz g) Bxy = Inr s"
    and "m ''forward_xt_prime'' = Some fx" "m ''forward_zt_prime'' = Some fz"
    and "m ''backward_xt_prime'' = Some bx'" "m ''backward_zt_prime'' = Some bz'"
  shows "fst (write_body T g m legacy G Bxy bx bz Map.empty) = Inr () \<and>
         snd (write_body T g m legacy G Bxy bx bz Map.empty) ''nz'' =
           (if legacy then None else Some (IntV (int (nz g)))) \<and>
         snd (write_body T g m legacy G Bxy bx bz Map.empty) ''forward_xt_prime'' =
           Some (Arr3 (if legacy then T fx else fx)) \<and>
         snd (write_body T g m legacy G Bxy bx bz Map.empty) ''forward_zt_prime'' =
           Some (Arr3 (if legacy then T fz else fz)) \<and>
         snd (write_body T g m legacy G Bxy bx bz Map.empty) ''backward_xt_prime'' =
           Some (Arr3 (if legacy then T bx' else bx')) \<and>
         snd (write_body T g m legacy G Bxy bx bz Map.empty) ''backward_zt_prime'' =
           Some (Arr3 (if legacy then T bz' else bz'))"
  using assms
  by (simp add: write_body_def fwrite_def write_map_def Let_def)

lemma stored_written:
  "stored (snd (case w of (r, f) \<Rightarrow> (r, fs(file \<mapsto> f)))) file name = snd w name"
  by (cases w) (simp add: stored_def)

text \<open>
  Claim C6: \<^verbatim>\<open>write_maps\<close> writes \<^verbatim>\<open>ixseps1\<close> and \<^verbatim>\<open>ixseps2\<close>, both with the value
  \<open>nx + 1\<close>, for every field, every maps dictionary and both settings of \<open>legacy\<close>,
  on a grid whose coordinate arrays have the lengths nx, ny, nz and whose major radius
  is not zero.
\<close>

theorem separatrix_markers:
  assumes "well_shaped g" "Rmaj g \<noteq> 0"
  shows "stored (snd (write_maps T g B m file legacy fs)) file ''ixseps1'' =
           Some (IntV (int (nx g) + 1)) \<and>
         stored (snd (write_maps T g B m file legacy fs)) file ''ixseps2'' =
           Some (IntV (int (nx g) + 1))"
  by (simp only: write_maps_well_shaped [OF assms] stored_written write_body_ixseps)

text \<open>
  Claim C7: on such a grid with \<open>nz > 0\<close>, \<^verbatim>\<open>g_22\<close> is written as the array of shape
  \<open>(nx, ny)\<close> with every entry \<open>1 / Rmaj\<^sup>2\<close>, \<^verbatim>\<open>Bxy\<close> as the array of shape
  \<open>(nx, ny)\<close> whose entry \<open>(i, j)\<close> is the field magnitude at \<open>(x\<^sub>i, z\<^sub>0, y\<^sub>j)\<close>, and
  \<^verbatim>\<open>bx\<close>, \<^verbatim>\<open>bz\<close> as the arrays of shape \<open>(nx, ny, nz)\<close> of the components at
  \<open>(x\<^sub>i, z\<^sub>k, y\<^sub>j)\<close>.
\<close>

theorem field_arrays_written:
  assumes "well_shaped g" "Rmaj g \<noteq> 0" "0 < nz g"
  shows "stored (snd (write_maps T g B m file legacy fs)) file ''g_22'' =
           Some (Arr2 (replicate (nx g) (replicate (ny g) (1 / (Rmaj g)\<^sup>2)))) \<and>
         stored (snd (write_maps T g B m file legacy fs)) file ''Bxy'' =
           Some (Arr2 (map (\<lambda>i. map (\<lambda>j.
               sqrt ((Bxfunc B (xarray g ! i) (zarray g ! 0) (yarray g ! j))\<^sup>2 +
                     (Bzfunc B (xarray g ! i) (zarray g ! 0) (yarray g ! j))\<^sup>2))
             [0..<ny g]) [0..<nx g])) \<and>
         stored (snd (write_maps T g B m file legacy fs)) file ''bx'' =
           Some (Arr3 (table3 (nx g) (ny g) (nz g)
             (\<lambda>i j k. Bxfunc B (xarray g ! i) (zarray g ! k) (yarray g ! j)))) \<and>
         stored (snd (write_maps T g B m file legacy fs)) file ''bz'' =
           Some (Arr3 (table3 (nx g) (ny g) (nz g)
             (\<lambda>i j k. Bzfunc B (xarray g ! i) (zarray g ! k) (yarray g ! j))))"
proof -
  have s: "slice_z0 (nz g) (table3 (nx g) (ny g) (nz g) (field_strength g B)) =
        Inr (map (\<lambda>i. map (\<lambda>j.
               sqrt ((Bxfunc B (xarray g ! i) (zarray g ! 0) (yarray g ! j))\<^sup>2 +
                     (Bzfunc B (xarray g ! i) (zarray g ! 0) (yarray g ! j))\<^sup>2))
             [0..<ny g]) [0..<nx g])"
    using assms(3) by (simp add: slice_table3 field_strength_def)
  show ?thesis
    by (simp only: write_maps_well_shaped [OF assms(1,2)] stored_written write_body_arrays [OF s])
qed

text \<open>
  What the source decides of the legacy switch: with the four maps in the dictionary,
  \<^verbatim>\<open>write_maps\<close> returns; in a legacy file there is no \<^verbatim>\<open>nz\<close> and each map is
  stored as the result of the call \<^verbatim>\<open>transform3D(map)\<close>, in any other file \<^verbatim>\<open>nz\<close> is
  stored and each map is stored as it is. What \<^verbatim>\<open>transform3D\<close> computes is decided in
  \<^verbatim>\<open>boutdata.input\<close>, outside these sources, and is left open here.
\<close>

lemma legacy_file_contents:
  assumes "well_shaped g" "Rmaj g \<noteq> 0" "0 < nz g"
    and "m ''forward_xt_prime'' = Some fx" "m ''forward_zt_prime'' = Some fz"
    and "m ''backward_xt_prime'' = Some bx" "m ''backward_zt_prime'' = Some bz"
  shows "fst (write_maps T g B m file legacy fs) = Inr () \<and>
         stored (snd (write_maps T g B m file legacy fs)) file ''nz'' =
           (if legacy then None else Some (IntV (int (nz g)))) \<and>
         stored (snd (write_maps T g B m file legacy fs)) file ''forward_xt_prime'' =
           Some (Arr3 (if legacy then T fx else fx)) \<and>
         stored (snd (write_maps T g B m file legacy fs)) file ''forward_zt_prime'' =
           Some (Arr3 (if legacy then T fz else fz)) \<and>
         stored (snd (write_maps T g B m file legacy fs)) file ''backward_xt_prime'' =
           Some (Arr3 (if legacy then T bx else bx)) \<and>
         stored (snd (write_maps T g B m file legacy fs)) file ''backward_zt_prime'' =
           Some (Arr3 (if legacy then T bz else bz))"
proof -
  obtain s where s: "slice_z0 (nz g) (table3 (nx g) (ny g) (nz g) (field_strength g B)) = Inr s"
    using assms(3) by (simp add: slice_table3)
  have f: "fst (case w of (r, f) \<Rightarrow> (r, fs(file \<mapsto> f))) = fst w" for w :: "(error + unit) \<times> datafile"
    by (cases w) simp
  show ?thesis
    by (simp only: write_maps_well_shaped [OF assms(1,2)] stored_written f
        write_body_maps [OF s assms(4-7)])
qed

lemma index_grid_facts:
  "well_shaped index_grid" "Rmaj index_grid \<noteq> 0" "0 < nz index_grid"
  by (simp_all add: well_shaped_def index_grid_def)

theorem separatrix_markers_witness:
  "well_shaped index_grid \<and> Rmaj index_grid \<noteq> 0 \<and>
   stored (snd (write_maps mirror_z index_grid radial_B index_maps ''fci.grid.nc'' False Map.empty))
     ''fci.grid.nc'' ''ixseps1'' = Some (IntV 3) \<and>
   stored (snd (write_maps mirror_z index_grid radial_B index_maps ''fci.grid.nc'' False Map.empty))
     ''fci.grid.nc'' ''ixseps2'' = Some (IntV 3)"
proof -
  have n: "int (nx index_grid) + 1 = 3"
    by (simp add: index_grid_def)
  from separatrix_markers [OF index_grid_facts(1,2), of mirror_z radial_B index_maps
      "''fci.grid.nc''" False Map.empty]
  show ?thesis
    unfolding n using index_grid_facts(1,2) by blast
qed

theorem field_arrays_written_witness:
  "well_shaped index_grid \<and> Rmaj index_grid \<noteq> 0 \<and> 0 < nz index_grid \<and>
   stored (snd (write_maps mirror_z index_grid radial_B index_maps ''fci.grid.nc'' True Map.empty))
     ''fci.grid.nc'' ''g_22'' = Some (Arr2 [[1 / 4, 1 / 4, 1 / 4], [1 / 4, 1 / 4, 1 / 4]]) \<and>
   stored (snd (write_maps mirror_z index_grid radial_B index_maps ''fci.grid.nc'' True Map.empty))
     ''fci.grid.nc'' ''Bxy'' = Some (Arr2 [[0, 0, 0], [1, 1, 1]]) \<and>
   stored (snd (write_maps mirror_z index_grid radial_B index_maps ''fci.grid.nc'' True Map.empty))
     ''fci.grid.nc'' ''bx'' = Some (Arr3 [[[0, 0], [0, 0], [0, 0]], [[1, 1], [1, 1], [1, 1]]]) \<and>
   stored (snd (write_maps mirror_z index_grid radial_B index_maps ''fci.grid.nc'' True Map.empty))
     ''fci.grid.nc'' ''bz'' = Some (Arr3 [[[0, 0], [0, 0], [0, 0]], [[0, 0], [0, 0], [0, 0]]])"
proof -
  have g: "replicate (nx index_grid) (replicate (ny index_grid) (1 / (Rmaj index_grid)\<^sup>2)) =
           [[1 / 4, 1 / 4, 1 / 4], [1 / 4, 1 / 4, 1 / 4]]"
    by (simp add: index_grid_def eval_nat_numeral)
  have b: "map (\<lambda>i. map (\<lambda>j.
               sqrt ((Bxfunc radial_B (xarray index_grid ! i) (zarray index_grid ! 0) (yarray index_grid ! j))\<^sup>2 +
                     (Bzfunc radial_B (xarray index_grid ! i) (zarray index_grid ! 0) (yarray index_grid ! j))\<^sup>2))
             [0..<ny index_grid]) [0..<nx index_grid] = [[0, 0, 0], [1, 1, 1]]"
    by (simp add: index_grid_def radial_B_def upt_rec [of _ "numeral _"] upt_rec [of _ "Suc _"]
        eval_nat_numeral)
  have x: "table3 (nx index_grid) (ny index_grid) (nz index_grid)
             (\<lambda>i j k. Bxfunc radial_B (xarray index_grid ! i) (zarray index_grid ! k) (yarray index_grid ! j)) =
           [[[0, 0], [0, 0], [0, 0]], [[1, 1], [1, 1], [1, 1]]]"
    by (simp add: table3_def index_grid_def radial_B_def upt_rec [of _ "numeral _"]
        upt_rec [of _ "Suc _"] eval_nat_numeral)
  have z: "table3 (nx index_grid) (ny index_grid) (nz index_grid)
             (\<lambda>i j k. Bzfunc radial_B (xarray index_grid ! i) (zarray index_grid ! k) (yarray index_grid ! j)) =
           [[[0, 0], [0, 0], [0, 0]], [[0, 0], [0, 0], [0, 0]]]"
    by (simp add: table3_def index_grid_def radial_B_def upt_rec [of _ "numeral _"]
        upt_rec [of _ "Suc _"] eval_nat_numeral)
  from field_arrays_written [OF index_grid_facts, of mirror_z radial_B index_maps
      "''fci.grid.nc''" True Map.empty]
  show ?thesis
    unfolding g b x z using index_grid_facts by blast
qed

section \<open>Properties of the visualization exporter\<close>

lemma missing_bx_raises:
  assumes "fs infile = Some f" "f ''bx'' = None"
  shows "fci_to_vtk True gridToVTK fs infile outfile scale out = (Inl AttributeError, out)"
  using assms by (simp add: fci_to_vtk_def read_fields_def)

text \<open>
  Claim C8, evaluated on the code: for a grid file without \<^verbatim>\<open>bx\<close> the exporter raises
  \<^verbatim>\<open>AttributeError\<close> at \<^verbatim>\<open>np.ones(bx.shape)\<close>, before the branch that would derive
  the field from the maps, and nothing is exported.
\<close>

theorem exporter_without_bx_raises:
  "fci_to_vtk True gridToVTK [''fci.grid.nc'' \<mapsto> maps_only_file] ''fci.grid.nc'' outfile scale out =
   (Inl AttributeError, out)"
  by (rule missing_bx_raises [where f = maps_only_file]) (simp_all add: maps_only_file_def)

text \<open>
  Claim C9: without the VTK back end \<^verbatim>\<open>fci_to_vtk\<close> returns at once, without an
  exception, for every file system (also one without the input file) and every
  argument, and the output is unchanged.
\<close>

theorem exporter_without_backend:
  "fci_to_vtk False gridToVTK fs infile outfile scale out = (Inr (), out)"
  by (simp add: fci_to_vtk_def)

end
